theory Spec2Isabelle
  imports Complex_Main "HOL-Library.Multiset"
begin

section \<open>Errors and outcomes\<close>

text \<open>
  The exceptions the modelled code raises, each with the message of the source. A method
  that mutates its objects before it raises returns the store it leaves behind together
  with the exception: an outcome is a pair of \<open>error option\<close> (\<open>None\<close>: returned normally)
  and the store.
\<close>

datatype error =
    RuntimeError string
  | ValueError string
  | IndexError string
  | KeyError string

section \<open>Shared types\<close>

text \<open>
  The members of \<open>FlightType\<close> that the sources name. The enumeration itself
  (game/ato/flighttype.py) is not among the sources.
\<close>

datatype FlightType =
    TARCAP | BARCAP | CAS | STRIKE | ANTISHIP | SEAD | DEAD | ESCORT | BAI | SWEEP
  | OCA_RUNWAY | OCA_AIRCRAFT | AEWC | TRANSPORT | SEAD_ESCORT | REFUELING | FERRY
  | AIR_ASSAULT | SEAD_SWEEP | PRETENSE_CARGO | ARMED_RECON | RECOVERY

text \<open>
  Python objects are referred to by reference. Flights, packages, transfer orders and
  flight databases live in a store, one heap per class, addressed by natural numbers;
  equality of references is Python's object identity. Game objects that are never modified
  here (ground objects, ships, control points, front lines, mission targets) are identified
  by a number. Distances are in meters, times in seconds.
\<close>

type_synonym flight_ref = nat
type_synonym package_ref = nat
type_synonym transfer_ref = nat
type_synonym db_ref = nat
type_synonym ControlPoint = nat
type_synonym MissionTarget = nat
type_synonym UUID = nat
type_synonym datetime = int
type_synonym addr = nat
type_synonym obj = nat
type_synonym Distance = rat

section \<open>The theater state (game/commander/theaterstate.py)\<close>

text \<open>
  \<open>AutoAtoBehavior\<close> (game/settings, not among the sources): the sources name the member
  \<open>Disabled\<close> only. Of the settings, the coalition and the context, the attributes the
  modelled methods read; \<open>has_awacs_package\<close> is \<open>coalition.ato.has_awacs_package\<close> and
  \<open>game_settings\<close> is \<open>coalition.game.settings\<close>.
\<close>

datatype AutoAtoBehavior = Disabled | OtherBehavior nat

record Settings =
  auto_ato_behavior :: AutoAtoBehavior
  ownfor_autoplanner_aggressiveness :: int
  opfor_autoplanner_aggressiveness :: int

record Coalition =
  player :: bool
  has_awacs_package :: bool
  game_settings :: Settings

record PersistentContext =
  game_db :: nat
  coalition :: Coalition
  theater :: nat
  turn :: int
  now :: datetime
  settings :: Settings
  tracer :: nat

text \<open>
  The lists and dictionaries of a theater state are mutable objects that two states can
  share, so they live in a heap, one component per Python type: lists of game objects,
  dictionaries to integers, to optional combat stances and to \<open>BattlePositions\<close> objects,
  and the \<open>BattlePositions\<close> objects themselves (game/commander/battlepositions.py is not
  among the sources: such an object is the values of its fields). A dictionary is the list
  of its items in insertion order. \<open>next_addr\<close> is the first address not yet in use.
\<close>

type_synonym BattlePositions = "addr list"

record heap =
  list_objs :: "addr \<Rightarrow> obj list"
  int_dict_objs :: "addr \<Rightarrow> (obj \<times> int) list"
  stance_dict_objs :: "addr \<Rightarrow> (obj \<times> nat option) list"
  bp_dict_objs :: "addr \<Rightarrow> (obj \<times> addr) list"
  bp_objs :: "addr \<Rightarrow> BattlePositions"
  next_addr :: addr

text \<open>
  The fields of \<open>TheaterState\<close>, in the order of the dataclass; \<open>persistent\<close> is the field
  \<open>context\<close>. A field that holds a list or a dictionary holds its address.
\<close>

record TheaterState =
  persistent :: PersistentContext
  barcaps_needed :: addr
  active_front_lines :: addr
  front_line_stances :: addr
  vulnerable_front_lines :: addr
  aewc_targets :: addr
  refueling_targets :: addr
  recovery_targets :: addr
  enemy_air_defenses :: addr
  threatening_air_defenses :: addr
  detecting_air_defenses :: addr
  enemy_convoys :: addr
  enemy_shipping :: addr
  enemy_ships :: addr
  enemy_battle_positions :: addr
  oca_targets :: addr
  strike_targets :: addr
  enemy_barcaps :: addr
  threat_zones :: nat
  vulnerable_control_points :: addr
  control_point_priority_queue :: addr
  priority_cp :: "obj option"

subsection \<open>Creating objects\<close>

text \<open>\<open>list(xs)\<close>, \<open>dict(d)\<close> and \<open>dataclasses.replace(g)\<close> create a new object with the
  contents of the old one.\<close>

definition new_list :: "obj list \<Rightarrow> heap \<Rightarrow> addr \<times> heap" where
  "new_list xs h =
     (next_addr h, h\<lparr>list_objs := (list_objs h)(next_addr h := xs), next_addr := Suc (next_addr h)\<rparr>)"

definition new_int_dict :: "(obj \<times> int) list \<Rightarrow> heap \<Rightarrow> addr \<times> heap" where
  "new_int_dict d h =
     (next_addr h,
      h\<lparr>int_dict_objs := (int_dict_objs h)(next_addr h := d), next_addr := Suc (next_addr h)\<rparr>)"

definition new_stance_dict :: "(obj \<times> nat option) list \<Rightarrow> heap \<Rightarrow> addr \<times> heap" where
  "new_stance_dict d h =
     (next_addr h,
      h\<lparr>stance_dict_objs := (stance_dict_objs h)(next_addr h := d),
        next_addr := Suc (next_addr h)\<rparr>)"

definition new_bp_dict :: "(obj \<times> addr) list \<Rightarrow> heap \<Rightarrow> addr \<times> heap" where
  "new_bp_dict d h =
     (next_addr h,
      h\<lparr>bp_dict_objs := (bp_dict_objs h)(next_addr h := d), next_addr := Suc (next_addr h)\<rparr>)"

definition new_BattlePositions :: "BattlePositions \<Rightarrow> heap \<Rightarrow> addr \<times> heap" where
  "new_BattlePositions g h =
     (next_addr h, h\<lparr>bp_objs := (bp_objs h)(next_addr h := g), next_addr := Suc (next_addr h)\<rparr>)"

text \<open>The dictionary comprehension \<open>{cp: dataclasses.replace(g) for cp, g in items}\<close>.\<close>

fun replace_items :: "(obj \<times> addr) list \<Rightarrow> heap \<Rightarrow> (obj \<times> addr) list \<times> heap" where
  "replace_items [] h = ([], h)"
| "replace_items ((cp, g) # items) h =
     (let (g', h1) = new_BattlePositions (bp_objs h g) h;
          (rest, h2) = replace_items items h1
      in ((cp, g') # rest, h2))"

subsection \<open>clone\<close>

text \<open>
  The arguments of the constructor call are evaluated in the order they are written. The
  fields after the comment "Persistent properties are not copied" get the very object of
  the original.
\<close>

definition clone :: "TheaterState \<Rightarrow> heap \<Rightarrow> TheaterState \<times> heap" where
  "clone self h0 =
     (let (a_barcaps_needed, h1) = new_int_dict (int_dict_objs h0 (barcaps_needed self)) h0;
          (a_active_front_lines, h2) = new_list (list_objs h1 (active_front_lines self)) h1;
          (a_front_line_stances, h3) =
             new_stance_dict (stance_dict_objs h2 (front_line_stances self)) h2;
          (a_vulnerable_front_lines, h4) =
             new_list (list_objs h3 (vulnerable_front_lines self)) h3;
          (a_aewc_targets, h5) = new_list (list_objs h4 (aewc_targets self)) h4;
          (a_refueling_targets, h6) = new_list (list_objs h5 (refueling_targets self)) h5;
          (a_recovery_targets, h7) =
             new_int_dict (int_dict_objs h6 (recovery_targets self)) h6;
          (a_enemy_air_defenses, h8) = new_list (list_objs h7 (enemy_air_defenses self)) h7;
          (a_enemy_convoys, h9) = new_list (list_objs h8 (enemy_convoys self)) h8;
          (a_enemy_shipping, h10) = new_list (list_objs h9 (enemy_shipping self)) h9;
          (a_enemy_ships, h11) = new_list (list_objs h10 (enemy_ships self)) h10;
          (items, h12) = replace_items (bp_dict_objs h11 (enemy_battle_positions self)) h11;
          (a_enemy_battle_positions, h13) = new_bp_dict items h12;
          (a_oca_targets, h14) = new_list (list_objs h13 (oca_targets self)) h13;
          (a_strike_targets, h15) = new_list (list_objs h14 (strike_targets self)) h14;
          (a_enemy_barcaps, h16) = new_list (list_objs h15 (enemy_barcaps self)) h15
      in (\<lparr>persistent = persistent self,
           barcaps_needed = a_barcaps_needed,
           active_front_lines = a_active_front_lines,
           front_line_stances = a_front_line_stances,
           vulnerable_front_lines = a_vulnerable_front_lines,
           aewc_targets = a_aewc_targets,
           refueling_targets = a_refueling_targets,
           recovery_targets = a_recovery_targets,
           enemy_air_defenses = a_enemy_air_defenses,
           threatening_air_defenses = threatening_air_defenses self,
           detecting_air_defenses = detecting_air_defenses self,
           enemy_convoys = a_enemy_convoys,
           enemy_shipping = a_enemy_shipping,
           enemy_ships = a_enemy_ships,
           enemy_battle_positions = a_enemy_battle_positions,
           oca_targets = a_oca_targets,
           strike_targets = a_strike_targets,
           enemy_barcaps = a_enemy_barcaps,
           threat_zones = threat_zones self,
           vulnerable_control_points = vulnerable_control_points self,
           control_point_priority_queue = control_point_priority_queue self,
           priority_cp = priority_cp self\<rparr>,
          h16))"

subsection \<open>eliminate_air_defense and eliminate_ship\<close>

text \<open>
  \<open>if x in xs: xs.remove(x)\<close>, for the list at address \<open>a\<close>. \<open>ThreatZones.for_threats\<close>
  (game/threatzones.py is not among the sources) is a parameter: from the context, the
  barcap locations and the air defenses it gives the new threat zones. The last
  \<open>remove\<close> raises \<open>ValueError\<close> when the ground object is not in the list; the two lists
  before it have been updated by then.
\<close>

definition remove_if_present :: "addr \<Rightarrow> obj \<Rightarrow> heap \<Rightarrow> heap" where
  "remove_if_present a x h =
     (if x \<in> set (list_objs h a) then h\<lparr>list_objs := (list_objs h)(a := remove1 x (list_objs h a))\<rparr>
      else h)"

definition rebuild_threat_zones ::
  "(PersistentContext \<Rightarrow> obj list \<Rightarrow> obj list \<Rightarrow> nat) \<Rightarrow> TheaterState \<Rightarrow> heap \<Rightarrow> TheaterState" where
  "rebuild_threat_zones for_threats self h =
     self\<lparr>threat_zones :=
            for_threats (persistent self) (list_objs h (enemy_barcaps self))
              (list_objs h (enemy_air_defenses self) @ list_objs h (enemy_ships self))\<rparr>"

definition eliminate_air_defense ::
  "(PersistentContext \<Rightarrow> obj list \<Rightarrow> obj list \<Rightarrow> nat) \<Rightarrow> obj \<Rightarrow>
   TheaterState \<Rightarrow> heap \<Rightarrow> error option \<times> TheaterState \<times> heap" where
  "eliminate_air_defense for_threats tgo self h =
     (let h1 = remove_if_present (threatening_air_defenses self) tgo h;
          h2 = remove_if_present (detecting_air_defenses self) tgo h1
      in if tgo \<notin> set (list_objs h2 (enemy_air_defenses self)) then
           (Some (ValueError ''list.remove(x): x not in list''), self, h2)
         else
           let h3 = h2\<lparr>list_objs := (list_objs h2)
                         (enemy_air_defenses self :=
                            remove1 tgo (list_objs h2 (enemy_air_defenses self)))\<rparr>
           in (None, rebuild_threat_zones for_threats self h3, h3))"

definition eliminate_ship ::
  "(PersistentContext \<Rightarrow> obj list \<Rightarrow> obj list \<Rightarrow> nat) \<Rightarrow> obj \<Rightarrow>
   TheaterState \<Rightarrow> heap \<Rightarrow> error option \<times> TheaterState \<times> heap" where
  "eliminate_ship for_threats tgo self h =
     (let h1 = remove_if_present (threatening_air_defenses self) tgo h;
          h2 = remove_if_present (detecting_air_defenses self) tgo h1
      in if tgo \<notin> set (list_objs h2 (enemy_ships self)) then
           (Some (ValueError ''list.remove(x): x not in list''), self, h2)
         else
           let h3 = h2\<lparr>list_objs := (list_objs h2)
                         (enemy_ships self := remove1 tgo (list_objs h2 (enemy_ships self)))\<rparr>
           in (None, rebuild_threat_zones for_threats self h3, h3))"

subsection \<open>What a state holds\<close>

text \<open>
  What a state holds, read through the heap: the value Python's \<open>==\<close> compares. The
  \<open>BattlePositions\<close> of the dictionary are compared by their fields, as the \<open>__eq__\<close> of a
  dataclass does.
\<close>

definition list_fields :: "TheaterState \<Rightarrow> addr list" where
  "list_fields s =
     [active_front_lines s, vulnerable_front_lines s, aewc_targets s, refueling_targets s,
      enemy_air_defenses s, threatening_air_defenses s, detecting_air_defenses s,
      enemy_convoys s, enemy_shipping s, enemy_ships s, oca_targets s, strike_targets s,
      enemy_barcaps s, vulnerable_control_points s, control_point_priority_queue s]"

definition contents ::
  "heap \<Rightarrow> TheaterState \<Rightarrow>
   (PersistentContext \<times> nat \<times> obj option) \<times> obj list list \<times> (obj \<times> int) list list \<times>
   (obj \<times> nat option) list \<times> (obj \<times> BattlePositions) list" where
  "contents h s =
     ((persistent s, threat_zones s, priority_cp s),
      map (list_objs h) (list_fields s),
      map (int_dict_objs h) [barcaps_needed s, recovery_targets s],
      stance_dict_objs h (front_line_stances s),
      map (\<lambda>(cp, g). (cp, bp_objs h g)) (bp_dict_objs h (enemy_battle_positions s)))"

text \<open>The addresses a state refers to, and the ones \<open>clone\<close> copies.\<close>

definition addresses :: "heap \<Rightarrow> TheaterState \<Rightarrow> addr list" where
  "addresses h s =
     list_fields s @ [barcaps_needed s, recovery_targets s, front_line_stances s,
                      enemy_battle_positions s]
     @ map snd (bp_dict_objs h (enemy_battle_positions s))"

definition allocated :: "heap \<Rightarrow> TheaterState \<Rightarrow> bool" where
  "allocated h s \<longleftrightarrow> (\<forall>a \<in> set (addresses h s). a < next_addr h)"

definition copied_lists :: "TheaterState \<Rightarrow> addr list" where
  "copied_lists s =
     [active_front_lines s, vulnerable_front_lines s, aewc_targets s, refueling_targets s,
      enemy_air_defenses s, enemy_convoys s, enemy_shipping s, enemy_ships s, oca_targets s,
      strike_targets s, enemy_barcaps s]"

text \<open>
  \<open>extends h h'\<close>: the heap \<open>h'\<close> has every object of \<open>h\<close> unchanged, and possibly new
  objects.
\<close>

definition extends :: "heap \<Rightarrow> heap \<Rightarrow> bool" where
  "extends h h' \<longleftrightarrow>
     next_addr h \<le> next_addr h' \<and>
     (\<forall>a < next_addr h.
        list_objs h' a = list_objs h a \<and> int_dict_objs h' a = int_dict_objs h a \<and>
        stance_dict_objs h' a = stance_dict_objs h a \<and> bp_dict_objs h' a = bp_dict_objs h a \<and>
        bp_objs h' a = bp_objs h a)"

subsection \<open>A theater state for the examples\<close>

text \<open>
  Ground objects 10, 11 and 12 and the ship 20 are the enemy's air defenses; 11 is already
  known as a detector. One control point, 1, has battle positions.
\<close>

definition example_heap :: heap where
  "example_heap =
     \<lparr>list_objs = (\<lambda>_. [])(4 := [10, 11, 12], 6 := [11], 9 := [20], 11 := [30]),
      int_dict_objs = (\<lambda>_. [])(15 := [(1, 2)]),
      stance_dict_objs = (\<lambda>_. []),
      bp_dict_objs = (\<lambda>_. [])(18 := [(1, 19)]),
      bp_objs = (\<lambda>_. [])(19 := [40, 41]),
      next_addr = 20\<rparr>"

definition example_settings :: Settings where
  "example_settings =
     \<lparr>auto_ato_behavior = OtherBehavior 0, ownfor_autoplanner_aggressiveness = 20,
      opfor_autoplanner_aggressiveness = 20\<rparr>"

definition example_state :: TheaterState where
  "example_state =
     \<lparr>persistent =
        \<lparr>game_db = 0,
         coalition = \<lparr>player = True, has_awacs_package = False, game_settings = example_settings\<rparr>,
         theater = 0, turn = 1, now = 0, settings = example_settings, tracer = 0\<rparr>,
      barcaps_needed = 15,
      active_front_lines = 0,
      front_line_stances = 17,
      vulnerable_front_lines = 1,
      aewc_targets = 2,
      refueling_targets = 3,
      recovery_targets = 16,
      enemy_air_defenses = 4,
      threatening_air_defenses = 5,
      detecting_air_defenses = 6,
      enemy_convoys = 7,
      enemy_shipping = 8,
      enemy_ships = 9,
      enemy_battle_positions = 18,
      oca_targets = 10,
      strike_targets = 11,
      enemy_barcaps = 12,
      threat_zones = 0,
      vulnerable_control_points = 13,
      control_point_priority_queue = 14,
      priority_cp = Some 1\<rparr>"

section \<open>Package planning tasks (game/commander/tasks/packageplanningtask.py)\<close>

datatype RangeType = Detection | Threat

text \<open>
  \<open>GroupTask\<close> (game/data/groups.py) and \<open>EscortType\<close> (game/commander/missionproposals.py)
  are not among the sources; these are the members the sources name, and one constructor
  for the other group tasks.
\<close>

datatype GroupTask = LORAD | MERAD | AAA | OtherGroupTask nat

datatype EscortType = AirToAir | Sead

record ProposedFlight =
  task :: FlightType
  num_aircraft :: int
  escort_type :: "EscortType option"

text \<open>\<open>ProposedMission(self.target, self.flights, asap=asap)\<close>.\<close>

record ProposedMission =
  location :: MissionTarget
  proposed :: "ProposedFlight list"
  asap :: bool

text \<open>The fields of the dataclass; \<open>package\<close> refers to a \<open>Package\<close> object.\<close>

record PackagePlanningTask =
  target :: MissionTarget
  flights :: "ProposedFlight list"
  package :: "package_ref option"

text \<open>
  The methods of the ground objects and of \<open>Distance\<close> that the task calls
  (game/theater/theatergroundobject.py and game/utils.py are not among the sources) are
  parameters: \<open>distance_to M tgo tgt\<close> is \<open>meters(tgo.distance_to(tgt))\<close>,
  \<open>distance_bool M d\<close> is the truth value of the distance \<open>d\<close> and \<open>tgo_task M tgo\<close> is
  \<open>tgo.task\<close>.
\<close>

record tgo_methods =
  distance_to :: "obj \<Rightarrow> MissionTarget \<Rightarrow> Distance"
  max_detection_range :: "obj \<Rightarrow> Distance"
  max_threat_range :: "obj \<Rightarrow> Distance"
  distance_bool :: "Distance \<Rightarrow> bool"
  tgo_task :: "obj \<Rightarrow> GroupTask"

subsection \<open>iter_iads_ranges\<close>

text \<open>
  The argument \<open>range_type\<close> is \<open>Some\<close> member of \<open>RangeType\<close>, or \<open>None\<close> for a value that
  is no member (Python does not check the annotation); for that the loop raises
  \<open>ValueError\<close> at the first ground object. The generator runs its whole loop and the sort
  before it yields the first object, so its result is an exception or the whole sequence.
\<close>

fun target_ranges_loop ::
  "tgo_methods \<Rightarrow> MissionTarget \<Rightarrow> RangeType option \<Rightarrow> obj list \<Rightarrow> (obj \<times> Distance) list \<Rightarrow>
   error + (obj \<times> Distance) list" where
  "target_ranges_loop M tgt range_type [] target_ranges = Inr target_ranges"
| "target_ranges_loop M tgt range_type (tgo # all_iads) target_ranges =
     (let distance = distance_to M tgo tgt in
      case range_type of
        None \<Rightarrow> Inl (ValueError ''Unknown RangeType'')
      | Some rt \<Rightarrow>
          let target_range =
                (case rt of Detection \<Rightarrow> max_detection_range M tgo
                          | Threat \<Rightarrow> max_threat_range M tgo)
          in if \<not> distance_bool M target_range then
               target_ranges_loop M tgt range_type all_iads target_ranges
             else
               let distance_to_threat = distance - target_range
               in if distance_to_threat > 0 then
                    target_ranges_loop M tgt range_type all_iads target_ranges
                  else
                    target_ranges_loop M tgt range_type all_iads
                      (target_ranges @ [(tgo, distance_to_threat)]))"

text \<open>\<open>sorted\<close> is stable and ascending, as \<open>sort_key\<close> is.\<close>

definition iter_iads_ranges ::
  "tgo_methods \<Rightarrow> PackagePlanningTask \<Rightarrow> heap \<Rightarrow> TheaterState \<Rightarrow> RangeType option \<Rightarrow>
   error + obj list" where
  "iter_iads_ranges M self h state range_type =
     (case target_ranges_loop M (target self) range_type
             (list_objs h (enemy_air_defenses state) @ list_objs h (enemy_ships state)) [] of
        Inl e \<Rightarrow> Inl e
      | Inr target_ranges \<Rightarrow> Inr (map fst (sort_key snd target_ranges)))"

definition iter_detecting_iads ::
  "tgo_methods \<Rightarrow> PackagePlanningTask \<Rightarrow> heap \<Rightarrow> TheaterState \<Rightarrow> error + obj list" where
  "iter_detecting_iads M self h state = iter_iads_ranges M self h state (Some Detection)"

definition iter_iads_threats ::
  "tgo_methods \<Rightarrow> PackagePlanningTask \<Rightarrow> heap \<Rightarrow> TheaterState \<Rightarrow> error + obj list" where
  "iter_iads_threats M self h state = iter_iads_ranges M self h state (Some Threat)"

text \<open>
  The range that \<open>iter_iads_ranges\<close> reads for a range type, the distance to the threat
  that it computes from it, and the ground objects that it keeps: those with a range that
  is true and a distance to the threat that is not positive.
\<close>

definition range_of :: "tgo_methods \<Rightarrow> RangeType \<Rightarrow> obj \<Rightarrow> Distance" where
  "range_of M rt tgo =
     (case rt of Detection \<Rightarrow> max_detection_range M tgo | Threat \<Rightarrow> max_threat_range M tgo)"

definition distance_to_threat :: "tgo_methods \<Rightarrow> MissionTarget \<Rightarrow> RangeType \<Rightarrow> obj \<Rightarrow> Distance" where
  "distance_to_threat M tgt rt tgo = distance_to M tgo tgt - range_of M rt tgo"

definition in_range :: "tgo_methods \<Rightarrow> MissionTarget \<Rightarrow> RangeType \<Rightarrow> obj \<Rightarrow> bool" where
  "in_range M tgt rt tgo \<longleftrightarrow>
     distance_bool M (range_of M rt tgo) \<and> distance_to_threat M tgt rt tgo \<le> 0"

subsection \<open>target_area_preconditions_met\<close>

definition corrective_factor_for_type :: "tgo_methods \<Rightarrow> obj \<Rightarrow> rat" where
  "corrective_factor_for_type M tgo =
     (if tgo_task M tgo \<in> {LORAD, MERAD} then 1
      else if tgo_task M tgo = AAA then 1 / 2 else 9 / 10)"

definition get_weighted_threat_range ::
  "tgo_methods \<Rightarrow> PackagePlanningTask \<Rightarrow> obj \<Rightarrow> TheaterState \<Rightarrow> Distance" where
  "get_weighted_threat_range M self iads_threat state =
     (let distance = distance_to M iads_threat (target self);
          the_settings = game_settings (coalition (persistent state));
          margin = 100 - (if player (coalition (persistent state))
                          then ownfor_autoplanner_aggressiveness the_settings
                          else opfor_autoplanner_aggressiveness the_settings);
          threat_range = max_threat_range M iads_threat * (of_int margin / 100);
          corrective_factor = corrective_factor_for_type M iads_threat;
          threat_range = threat_range * corrective_factor;
          distance_to_threat = distance - threat_range
      in distance_to_threat)"

text \<open>\<open>if x not in xs: xs.append(x)\<close>, for the list at address \<open>a\<close>.\<close>

definition append_unseen :: "addr \<Rightarrow> obj \<Rightarrow> heap \<Rightarrow> heap" where
  "append_unseen a x h =
     (if x \<notin> set (list_objs h a) then h\<lparr>list_objs := (list_objs h)(a := list_objs h a @ [x])\<rparr>
      else h)"

text \<open>
  The first loop runs over the detectors and the second, unless \<open>ignore_iads\<close>, over the
  threats; the second generator reads the lists when the first loop is over.
\<close>

definition target_area_preconditions_met ::
  "tgo_methods \<Rightarrow> PackagePlanningTask \<Rightarrow> TheaterState \<Rightarrow> bool \<Rightarrow> heap \<Rightarrow> (error + bool) \<times> heap" where
  "target_area_preconditions_met M self state ignore_iads h =
     (case iter_detecting_iads M self h state of
        Inl e \<Rightarrow> (Inl e, h)
      | Inr detectors \<Rightarrow>
          let h1 = fold (append_unseen (detecting_air_defenses state)) detectors h in
          if ignore_iads then (Inr True, h1)
          else
            case iter_iads_threats M self h1 state of
              Inl e \<Rightarrow> (Inl e, h1)
            | Inr threats \<Rightarrow>
                let (threatened, h2) =
                      fold (\<lambda>iads_threat (threatened, h).
                              (threatened \<or> get_weighted_threat_range M self iads_threat state < 0,
                               append_unseen (threatening_air_defenses state) iads_threat h))
                        threats (False, h1)
                in (Inr (\<not> threatened), h2))"

subsection \<open>Planning the package\<close>

definition propose_flight ::
  "FlightType \<Rightarrow> int \<Rightarrow> EscortType option \<Rightarrow> PackagePlanningTask \<Rightarrow> PackagePlanningTask" where
  "propose_flight t n e self =
     self\<lparr>flights := flights self @ [\<lparr>task = t, num_aircraft = n, escort_type = e\<rparr>]\<rparr>"

definition propose_common_escorts :: "PackagePlanningTask \<Rightarrow> PackagePlanningTask" where
  "propose_common_escorts self =
     propose_flight SEAD_SWEEP 2 (Some Sead)
       (propose_flight ESCORT 2 (Some AirToAir)
          (propose_flight SEAD_ESCORT 2 (Some Sead) self))"

definition purchase_multiplier :: int where
  "purchase_multiplier = 1"

text \<open>
  \<open>propose_flights\<close> is abstract: the subclass's method is a parameter.
  \<open>PackageFulfiller(...).plan_mission\<close> (game/commander/packagefulfiller.py is not among
  the sources) is a parameter too: from the context, the proposed mission and the purchase
  multiplier it gives a package or \<open>None\<close>, and changes the game \<open>'g\<close>. \<open>self.flights[0]\<close>
  raises \<open>IndexError\<close> when no flight is proposed.
\<close>

definition fulfill_mission ::
  "(PackagePlanningTask \<Rightarrow> PackagePlanningTask) \<Rightarrow>
   (PersistentContext \<Rightarrow> ProposedMission \<Rightarrow> int \<Rightarrow> 'g \<Rightarrow> package_ref option \<times> 'g) \<Rightarrow>
   PackagePlanningTask \<Rightarrow> TheaterState \<Rightarrow> 'g \<Rightarrow> (error + bool) \<times> PackagePlanningTask \<times> 'g" where
  "fulfill_mission propose_flights plan_mission self state g =
     (let self1 = propose_flights self in
      case flights self1 of
        [] \<Rightarrow> (Inl (IndexError ''list index out of range''), self1, g)
      | first # _ \<Rightarrow>
          let is_asap = (\<not> has_awacs_package (coalition (persistent state)) \<and>
                         AEWC \<in> set (map task (flights self1)));
              (planned, g') =
                 plan_mission (persistent state)
                   \<lparr>location = target self1, proposed = flights self1, asap = is_asap\<rparr>
                   purchase_multiplier g;
              self2 = self1\<lparr>package := planned\<rparr>
          in (Inr (package self2 \<noteq> None), self2, g'))"

definition preconditions_met ::
  "(PackagePlanningTask \<Rightarrow> PackagePlanningTask) \<Rightarrow>
   (PersistentContext \<Rightarrow> ProposedMission \<Rightarrow> int \<Rightarrow> 'g \<Rightarrow> package_ref option \<times> 'g) \<Rightarrow>
   PackagePlanningTask \<Rightarrow> TheaterState \<Rightarrow> 'g \<Rightarrow> (error + bool) \<times> PackagePlanningTask \<times> 'g" where
  "preconditions_met propose_flights plan_mission self state g =
     (if player (coalition (persistent state)) \<and>
         auto_ato_behavior (settings (persistent state)) = Disabled
      then (Inr False, self, g)
      else fulfill_mission propose_flights plan_mission self state g)"

text \<open>\<open>coalition.ato.add_package\<close> (game/ato, not among the sources) is a parameter.\<close>

definition execute ::
  "(package_ref \<Rightarrow> 'ato \<Rightarrow> 'ato) \<Rightarrow> PackagePlanningTask \<Rightarrow> 'ato \<Rightarrow> error option \<times> 'ato" where
  "execute add_package self ato =
     (case package self of
        None \<Rightarrow> (Some (RuntimeError ''Attempted to execute failed package planning task''), ato)
      | Some p \<Rightarrow> (None, add_package p ato))"

subsection \<open>Ground objects for the examples\<close>

text \<open>
  Distances to target 5 and ranges of the ground objects of the example state: 10 is 30 km
  away with a detection range of 50 km and a threat range of 40 km, 11 is 60 km away with
  ranges of 95 km and 20 km, 12 is 90 km away with ranges of 10 km, and the ship 20 is
  20 km away with ranges of 25 km.
\<close>

definition example_methods :: tgo_methods where
  "example_methods =
     \<lparr>distance_to = (\<lambda>tgo tgt. if tgo = 10 then 30000 else if tgo = 11 then 60000
                               else if tgo = 12 then 90000 else 20000),
      max_detection_range = (\<lambda>tgo. if tgo = 10 then 50000 else if tgo = 11 then 95000
                                    else if tgo = 12 then 10000 else 25000),
      max_threat_range = (\<lambda>tgo. if tgo = 10 then 40000 else if tgo = 11 then 20000
                                 else if tgo = 12 then 10000 else 25000),
      distance_bool = (\<lambda>d. d \<noteq> 0),
      tgo_task = (\<lambda>tgo. if tgo = 10 then LORAD else if tgo = 12 then AAA else OtherGroupTask 0)\<rparr>"

definition example_task :: PackagePlanningTask where
  "example_task = \<lparr>target = 5, flights = [], package = None\<rparr>"

text \<open>A subclass's \<open>propose_flights\<close>, and a planner that finds aircraft for at most four
  flights: it creates package 3.\<close>

definition example_propose_flights :: "PackagePlanningTask \<Rightarrow> PackagePlanningTask" where
  "example_propose_flights self = propose_common_escorts (propose_flight STRIKE 2 None self)"

definition example_propose_five :: "PackagePlanningTask \<Rightarrow> PackagePlanningTask" where
  "example_propose_five self = propose_flight AEWC 1 None (example_propose_flights self)"

definition example_plan_mission ::
  "PersistentContext \<Rightarrow> ProposedMission \<Rightarrow> int \<Rightarrow> nat \<Rightarrow> package_ref option \<times> nat" where
  "example_plan_mission ctx mission multiplier g =
     (if length (proposed mission) \<le> 4 then (Some 3, Suc g) else (None, g))"

section \<open>Flights and packages (game/ato/package.py)\<close>

text \<open>
  The attributes of a \<open>Flight\<close> that package.py reads or writes: \<open>flight.id\<close>,
  \<open>flight.package\<close>, \<open>flight.flight_type\<close>, \<open>flight.departure\<close>, \<open>flight.cargo\<close> and
  \<open>flight.flight_plan.layout\<close>.
\<close>

record Flight =
  flight_id :: UUID
  package :: package_ref
  flight_type :: FlightType
  departure :: ControlPoint
  cargo :: "transfer_ref option"
  layout :: nat

text \<open>A transfer order carried as cargo; \<open>transport\<close> is the flight that carries it.\<close>

record TransferOrder =
  transport :: "flight_ref option"

text \<open>The attributes \<open>Package.__init__\<close> sets; \<open>db\<close> is \<open>self._db\<close>.\<close>

record Package =
  target :: MissionTarget
  db :: db_ref
  frequency :: "nat option"
  custom_name :: "string option"
  auto_asap :: bool
  flights :: "flight_ref list"
  time_over_target :: datetime
  waypoints :: "nat option"

text \<open>
  The store. \<open>'db\<close> is the state of a \<open>Database\<close> object (game/db is not among the
  sources; its \<open>add\<close> and \<open>remove\<close> are parameters of the methods that call them).
  \<open>'sq\<close> is the state of squadrons and rosters, which \<open>Flight.return_pilots_and_aircraft\<close>
  (not among the sources either) updates. \<open>next_flight\<close> and \<open>next_package\<close> are the first
  references not yet given to an object.
\<close>

record ('db, 'sq) world =
  flight_objs :: "flight_ref \<Rightarrow> Flight"
  package_objs :: "package_ref \<Rightarrow> Package"
  transfer_objs :: "transfer_ref \<Rightarrow> TransferOrder"
  db_objs :: "db_ref \<Rightarrow> 'db"
  squadrons :: 'sq
  next_flight :: flight_ref
  next_package :: package_ref

definition datetime_min :: datetime where
  "datetime_min = 0"

text \<open>\<open>Package(target, db, auto_asap)\<close>: the constructor, with its defaults.\<close>

definition new_Package :: "MissionTarget \<Rightarrow> db_ref \<Rightarrow> bool \<Rightarrow> Package" where
  "new_Package tgt d auto =
     \<lparr>target = tgt, db = d, frequency = None, custom_name = None, auto_asap = auto,
      flights = [], time_over_target = datetime_min, waypoints = None\<rparr>"

definition set_package ::
  "package_ref \<Rightarrow> Package \<Rightarrow> ('db, 'sq) world \<Rightarrow> ('db, 'sq) world" where
  "set_package p pk w = w\<lparr>package_objs := (package_objs w)(p := pk)\<rparr>"

subsection \<open>add_flight and remove_flight\<close>

text \<open>
  \<open>add_flight\<close> appends to the list first and registers the flight afterwards, so the
  flight stays in the list when \<open>Database.add\<close> raises.
\<close>

definition add_flight ::
  "(UUID \<Rightarrow> flight_ref \<Rightarrow> 'db \<Rightarrow> error + 'db) \<Rightarrow> package_ref \<Rightarrow> flight_ref \<Rightarrow>
   ('db, 'sq) world \<Rightarrow> error option \<times> ('db, 'sq) world" where
  "add_flight db_add p f w =
     (let pk = package_objs w p;
          w1 = set_package p (pk\<lparr>flights := flights pk @ [f]\<rparr>) w
      in case db_add (flight_id (flight_objs w1 f)) f (db_objs w1 (db pk)) of
           Inl e \<Rightarrow> (Some e, w1)
         | Inr d \<Rightarrow> (None, w1\<lparr>db_objs := (db_objs w1)(db pk := d)\<rparr>))"

text \<open>
  \<open>list.remove\<close> deletes the first occurrence and raises \<open>ValueError\<close> when there is none;
  the statements after it run in the order of the source.
\<close>

definition remove_flight ::
  "(UUID \<Rightarrow> 'db \<Rightarrow> error + 'db) \<Rightarrow> (Flight \<Rightarrow> 'sq \<Rightarrow> 'sq) \<Rightarrow> package_ref \<Rightarrow> flight_ref \<Rightarrow>
   ('db, 'sq) world \<Rightarrow> error option \<times> ('db, 'sq) world" where
  "remove_flight db_remove return_pilots_and_aircraft p f w =
     (let pk = package_objs w p in
      if f \<notin> set (flights pk) then (Some (ValueError ''list.remove(x): x not in list''), w)
      else
        let w1 = set_package p (pk\<lparr>flights := remove1 f (flights pk)\<rparr>) w;
            fl = flight_objs w1 f
        in case db_remove (flight_id fl) (db_objs w1 (db pk)) of
             Inl e \<Rightarrow> (Some e, w1)
           | Inr d \<Rightarrow>
               let w2 = w1\<lparr>db_objs := (db_objs w1)(db pk := d)\<rparr>;
                   w3 = w2\<lparr>squadrons := return_pilots_and_aircraft fl (squadrons w2)\<rparr>;
                   w4 = (case cargo fl of
                           None \<Rightarrow> w3
                         | Some c \<Rightarrow>
                             w3\<lparr>transfer_objs :=
                                  (transfer_objs w3)(c := (transfer_objs w3 c)\<lparr>transport := None\<rparr>)\<rparr>);
                   pk4 = package_objs w4 p
               in (None,
                   if flights pk4 = [] then set_package p (pk4\<lparr>waypoints := None\<rparr>) w4
                   else w4))"

subsection \<open>primary_task\<close>

definition tasks_by_priority :: "FlightType list" where
  "tasks_by_priority =
     [CAS, STRIKE, ANTISHIP, OCA_AIRCRAFT, OCA_RUNWAY, BAI, DEAD, TRANSPORT, AIR_ASSAULT,
      ARMED_RECON, SEAD, SEAD_SWEEP, TARCAP, BARCAP, AEWC, FERRY, RECOVERY, REFUELING,
      SWEEP, SEAD_ESCORT, ESCORT]"

text \<open>
  \<open>flight_counts\<close> is a \<open>defaultdict\<close> with default 0: a total function. The first loop
  counts the flights of each type, the second returns the first tsk with a count that is
  not zero.
\<close>

fun count_flight_types :: "(FlightType \<Rightarrow> nat) \<Rightarrow> FlightType list \<Rightarrow> FlightType \<Rightarrow> nat" where
  "count_flight_types flight_counts [] = flight_counts"
| "count_flight_types flight_counts (t # ts) =
     count_flight_types (flight_counts(t := flight_counts t + 1)) ts"

fun first_counted :: "(FlightType \<Rightarrow> nat) \<Rightarrow> FlightType list \<Rightarrow> FlightType option" where
  "first_counted flight_counts [] = None"
| "first_counted flight_counts (tsk # tsks) =
     (if flight_counts tsk \<noteq> 0 then Some tsk else first_counted flight_counts tsks)"

definition flight_types :: "('db, 'sq) world \<Rightarrow> package_ref \<Rightarrow> FlightType list" where
  "flight_types w p = map (\<lambda>f. flight_type (flight_objs w f)) (flights (package_objs w p))"

definition primary_task :: "('db, 'sq) world \<Rightarrow> package_ref \<Rightarrow> FlightType option" where
  "primary_task w p =
     (case flight_types w p of
        [] \<Rightarrow> None
      | some_mission # rest \<Rightarrow>
          (case first_counted (count_flight_types (\<lambda>_. 0) (some_mission # rest))
                  tasks_by_priority of
             Some tsk \<Rightarrow> Some tsk
           | None \<Rightarrow> Some some_mission))"

subsection \<open>departure_closest_to_target\<close>

text \<open>
  \<open>ObjectiveDistanceCache.get_closest_airfields(self.target).operational_airfields\<close> is
  a parameter (game/ato/closestairfields.py is not among the sources): the sequence of
  airfields the cache offers for a target. The outer loop runs over it, the inner loop over
  the flights of the package.
\<close>

fun first_departure ::
  "('db, 'sq) world \<Rightarrow> flight_ref list \<Rightarrow> ControlPoint list \<Rightarrow> ControlPoint option" where
  "first_departure w fs [] = None"
| "first_departure w fs (airfield # rest) =
     (if list_ex (\<lambda>f. departure (flight_objs w f) = airfield) fs then Some airfield
      else first_departure w fs rest)"

definition departure_closest_to_target ::
  "(MissionTarget \<Rightarrow> ControlPoint list) \<Rightarrow> ('db, 'sq) world \<Rightarrow> package_ref \<Rightarrow>
   error + ControlPoint" where
  "departure_closest_to_target operational_airfields w p =
     (let pk = package_objs w p in
      if flights pk = [] then
        Inl (RuntimeError ''Cannot determine source airfield for package with no flights'')
      else
        case first_departure w (flights pk) (operational_airfields (target pk)) of
          Some airfield \<Rightarrow> Inr airfield
        | None \<Rightarrow> Inl (RuntimeError ''Could not find any airfield assigned to this package''))"

subsection \<open>clone_package\<close>

text \<open>
  \<open>Flight.clone_flight\<close> (not among the sources) is a parameter giving the attributes of
  the new flight object; the object itself is new, so it gets the next free reference.
  \<open>deepcopy\<close> of a value is the value.
\<close>

fun clone_flights ::
  "(Flight \<Rightarrow> Flight) \<Rightarrow> (UUID \<Rightarrow> flight_ref \<Rightarrow> 'db \<Rightarrow> error + 'db) \<Rightarrow> package_ref \<Rightarrow>
   flight_ref list \<Rightarrow> ('db, 'sq) world \<Rightarrow> error option \<times> ('db, 'sq) world" where
  "clone_flights clone_flight db_add the_clone [] w = (None, w)"
| "clone_flights clone_flight db_add the_clone (f # fs) w =
     (let cf = next_flight w;
          new = clone_flight (flight_objs w f);
          new = new\<lparr>layout := layout (flight_objs w f)\<rparr>;
          new = new\<lparr>package := the_clone\<rparr>;
          w1 = w\<lparr>flight_objs := (flight_objs w)(cf := new), next_flight := Suc cf\<rparr>
      in case add_flight db_add the_clone cf w1 of
           (Some e, w2) \<Rightarrow> (Some e, w2)
         | (None, w2) \<Rightarrow> clone_flights clone_flight db_add the_clone fs w2)"

definition clone_package ::
  "(Flight \<Rightarrow> Flight) \<Rightarrow> (UUID \<Rightarrow> flight_ref \<Rightarrow> 'db \<Rightarrow> error + 'db) \<Rightarrow> package_ref \<Rightarrow>
   ('db, 'sq) world \<Rightarrow> (error + package_ref) \<times> ('db, 'sq) world" where
  "clone_package clone_flight db_add p w =
     (let pk = package_objs w p;
          the_clone = next_package w;
          w1 = (set_package the_clone (new_Package (target pk) (db pk) (auto_asap pk)) w)
                 \<lparr>next_package := Suc the_clone\<rparr>;
          w2 = set_package the_clone
                 ((package_objs w1 the_clone)\<lparr>time_over_target := time_over_target pk\<rparr>) w1
      in case clone_flights clone_flight db_add the_clone (flights pk) w2 of
           (Some e, w3) \<Rightarrow> (Inl e, w3)
         | (None, w3) \<Rightarrow> (Inr the_clone, w3))"

subsection \<open>set_tot_asap and the estimator\<close>

text \<open>\<open>TotEstimator(self).earliest_tot(now)\<close> is the parameter \<open>estimate\<close>.\<close>

definition set_tot_asap ::
  "(('db, 'sq) world \<Rightarrow> package_ref \<Rightarrow> datetime \<Rightarrow> datetime) \<Rightarrow> package_ref \<Rightarrow> datetime \<Rightarrow>
   ('db, 'sq) world \<Rightarrow> ('db, 'sq) world" where
  "set_tot_asap estimate p time_now w =
     set_package p ((package_objs w p)\<lparr>time_over_target := estimate w p time_now\<rparr>) w"

text \<open>
  Modelled from the spec: \<open>TotEstimator.earliest_tot\<close> (game/ato/traveltime.py is not
  among the sources). The spec: "Input: a Package. Output: earliest feasible TOT, computed
  from slowest flight's transit time plus a fixed buffer. No error cases beyond missing
  flight plans (treated as already-arrived)." \<open>transit_time\<close> gives the seconds a flight
  needs to reach the target, \<open>None\<close> for a flight with no flight plan; such a flight counts
  as arrived, a transit of 0 seconds. Times are seconds.
\<close>

definition transit_or_arrived :: "(Flight \<Rightarrow> nat option) \<Rightarrow> Flight \<Rightarrow> nat" where
  "transit_or_arrived transit_time fl = (case transit_time fl of None \<Rightarrow> 0 | Some d \<Rightarrow> d)"

definition slowest_transit ::
  "(Flight \<Rightarrow> nat option) \<Rightarrow> ('db, 'sq) world \<Rightarrow> package_ref \<Rightarrow> nat" where
  "slowest_transit transit_time w p =
     fold max (map (\<lambda>f. transit_or_arrived transit_time (flight_objs w f))
                 (flights (package_objs w p))) 0"

definition earliest_tot ::
  "(Flight \<Rightarrow> nat option) \<Rightarrow> nat \<Rightarrow> ('db, 'sq) world \<Rightarrow> package_ref \<Rightarrow> datetime \<Rightarrow> datetime" where
  "earliest_tot transit_time buffer w p time_now =
     time_now + int (slowest_transit transit_time w p) + int buffer"

subsection \<open>Ownership\<close>

text \<open>
  The packages that exist are those below \<open>next_package\<close>. \<open>single_owner\<close>: no flight is in
  the flights lists of two of them.
\<close>

definition flights_of :: "('db, 'sq) world \<Rightarrow> package_ref \<Rightarrow> flight_ref set" where
  "flights_of w p = set (flights (package_objs w p))"

definition single_owner :: "('db, 'sq) world \<Rightarrow> bool" where
  "single_owner w \<longleftrightarrow>
     (\<forall>p \<in> set [0..<next_package w]. \<forall>q \<in> set [0..<next_package w].
        p \<noteq> q \<longrightarrow> flights_of w p \<inter> flights_of w q = {})"

text \<open>The flights in the lists of the existing packages are existing flight objects.\<close>

definition flights_allocated :: "('db, 'sq) world \<Rightarrow> bool" where
  "flights_allocated w \<longleftrightarrow>
     (\<forall>q \<in> set [0..<next_package w]. \<forall>f \<in> flights_of w q. f < next_flight w)"

subsection \<open>A store for the examples\<close>

text \<open>
  An instance of the \<open>Database\<close> parameters for the examples: a dictionary from ids to
  flights that refuses to add a key twice and to remove a key it does not hold.
\<close>

definition dict_add :: "UUID \<Rightarrow> flight_ref \<Rightarrow> (UUID \<times> flight_ref) list \<Rightarrow> error + (UUID \<times> flight_ref) list" where
  "dict_add k v d = (if k \<in> fst ` set d then Inl (KeyError ''exists'') else Inr (d @ [(k, v)]))"

definition dict_remove :: "UUID \<Rightarrow> (UUID \<times> flight_ref) list \<Rightarrow> error + (UUID \<times> flight_ref) list" where
  "dict_remove k d =
     (if k \<in> fst ` set d then Inr (filter (\<lambda>kv. fst kv \<noteq> k) d) else Inl (KeyError ''missing''))"

definition a_flight :: "UUID \<Rightarrow> package_ref \<Rightarrow> FlightType \<Rightarrow> ControlPoint \<Rightarrow> Flight" where
  "a_flight i p t cp =
     \<lparr>flight_id = i, package = p, flight_type = t, departure = cp, cargo = None, layout = 0\<rparr>"

text \<open>
  Three packages on one database. Package 0, on target 5, holds flights 0 (ESCORT, from
  airfield 7), 1 (PRETENSE_CARGO, from airfield 8, carrying transfer 0) and 2 (STRIKE, from
  airfield 8); package 1 is empty; package 2 holds flight 3 (PRETENSE_CARGO). Flight 4
  (BARCAP) has been created for package 1 and is not yet added to it.
\<close>

definition example_world :: "((UUID \<times> flight_ref) list, nat) world" where
  "example_world =
     \<lparr>flight_objs = (\<lambda>_. a_flight 0 0 ESCORT 0)
        (0 := a_flight 100 0 ESCORT 7,
         1 := (a_flight 101 0 PRETENSE_CARGO 8)\<lparr>cargo := Some 0\<rparr>,
         2 := a_flight 102 0 STRIKE 8,
         3 := a_flight 103 2 PRETENSE_CARGO 9,
         4 := a_flight 104 1 BARCAP 7),
      package_objs = (\<lambda>_. new_Package 0 0 False)
        (0 := (new_Package 5 0 False)\<lparr>flights := [0, 1, 2], waypoints := Some 1\<rparr>,
         1 := new_Package 6 0 False,
         2 := (new_Package 6 0 False)\<lparr>flights := [3]\<rparr>),
      transfer_objs = (\<lambda>_. \<lparr>transport = Some 1\<rparr>),
      db_objs = (\<lambda>_. [(100, 0), (101, 1), (102, 2), (103, 3)]),
      squadrons = 0,
      next_flight = 5,
      next_package = 3\<rparr>"

definition example_clone_flight :: "Flight \<Rightarrow> Flight" where
  "example_clone_flight fl = fl\<lparr>flight_id := flight_id fl + 1000\<rparr>"

text \<open>The airfields the cache offers in the examples, nearest first, and their distances.\<close>

definition example_airfields :: "MissionTarget \<Rightarrow> ControlPoint list" where
  "example_airfields tgt = [9, 8, 7]"

definition example_distance :: "MissionTarget \<Rightarrow> ControlPoint \<Rightarrow> rat" where
  "example_distance tgt cp = (if cp = 9 then 10 else if cp = 8 then 20 else 30)"

text \<open>Transit times for the examples: the escort has no flight plan.\<close>

definition example_transit :: "Flight \<Rightarrow> nat option" where
  "example_transit fl = (if flight_type fl = ESCORT then None
                         else if flight_type fl = STRIKE then Some 1800 else Some 600)"

section \<open>Properties of packages\<close>

lemma count_flight_types_eq:
  "count_flight_types c ts t = c t + count_list ts t"
  by (induction ts arbitrary: c) auto

lemma count_flight_types_zero:
  "count_flight_types (\<lambda>_. 0) ts t \<noteq> 0 \<longleftrightarrow> t \<in> set ts"
  by (simp add: count_flight_types_eq count_list_0_iff)

lemma first_counted_find:
  "first_counted c tsks = find (\<lambda>t. c t \<noteq> 0) tsks"
  by (induction tsks) auto

lemma primary_task_find:
  "primary_task w p =
     (case flight_types w p of
        [] \<Rightarrow> None
      | t # ts \<Rightarrow> (case find (\<lambda>tsk. tsk \<in> set (t # ts)) tasks_by_priority of
                    Some tsk \<Rightarrow> Some tsk
                  | None \<Rightarrow> Some t))"
  unfolding primary_task_def first_counted_find count_flight_types_zero
  by (simp split: list.splits)

lemma primary_task_by_list:
  "(primary_task w p = None \<longleftrightarrow> flights (package_objs w p) = []) \<and>
   (flights (package_objs w p) \<noteq> [] \<and> set (flight_types w p) \<inter> set tasks_by_priority \<noteq> {} \<longrightarrow>
      (\<exists>i < length tasks_by_priority.
         primary_task w p = Some (tasks_by_priority ! i) \<and>
         tasks_by_priority ! i \<in> set (flight_types w p) \<and>
         (\<forall>j < i. tasks_by_priority ! j \<notin> set (flight_types w p)))) \<and>
   (flights (package_objs w p) \<noteq> [] \<and> set (flight_types w p) \<inter> set tasks_by_priority = {} \<longrightarrow>
      primary_task w p = Some (flight_type (flight_objs w (hd (flights (package_objs w p))))))"
proof (cases "flight_types w p")
  case Nil
  then have "flights (package_objs w p) = []" by (simp add: flight_types_def)
  with Nil show ?thesis by (simp add: primary_task_find)
next
  case (Cons t ts)
  then have ne: "flights (package_objs w p) \<noteq> []" by (auto simp: flight_types_def)
  have hd_t: "flight_type (flight_objs w (hd (flights (package_objs w p)))) = t"
    using Cons ne by (cases "flights (package_objs w p)") (auto simp: flight_types_def)
  show ?thesis
  proof (cases "find (\<lambda>tsk. tsk \<in> set (t # ts)) tasks_by_priority")
    case None
    then have "set (t # ts) \<inter> set tasks_by_priority = {}"
      by (auto simp: find_None_iff)
    with None Cons ne hd_t show ?thesis by (simp add: primary_task_find)
  next
    case (Some tsk)
    then obtain i where i: "i < length tasks_by_priority" "tasks_by_priority ! i \<in> set (t # ts)"
      "tsk = tasks_by_priority ! i" "\<forall>j<i. tasks_by_priority ! j \<notin> set (t # ts)"
      by (auto simp: find_Some_iff)
    then have "set (t # ts) \<inter> set tasks_by_priority \<noteq> {}"
      by (metis disjoint_iff nth_mem)
    moreover have "primary_task w p = Some (tasks_by_priority ! i)"
      using Some Cons i(3) by (simp add: primary_task_find)
    ultimately show ?thesis using Cons ne i by auto
  qed
qed

lemma example_flight_types:
  "flight_types example_world 0 = [ESCORT, PRETENSE_CARGO, STRIKE]"
  "flight_types example_world 2 = [PRETENSE_CARGO]"
  by (simp_all add: flight_types_def example_world_def a_flight_def new_Package_def)


text \<open>
  C9. \<open>Package.primary_task\<close> is \<open>None\<close> exactly for a package with no flights. For a
  package with flights it is the first task in the order CAS, STRIKE, ANTISHIP,
  OCA_AIRCRAFT, OCA_RUNWAY, BAI, DEAD, TRANSPORT, AIR_ASSAULT, ARMED_RECON, SEAD,
  SEAD_SWEEP, TARCAP, BARCAP, AEWC, FERRY, RECOVERY, REFUELING, SWEEP, SEAD_ESCORT, ESCORT
  that is the type of a flight of the package (no earlier task of that order is the type
  of a flight); when no flight has a type of that order, it is the type of the first
  flight of the package.
\<close>

theorem primary_task_priority:
  fixes w :: "('db, 'sq) world" and p :: package_ref
  defines "types \<equiv> flight_types w p"
  defines "priority \<equiv>
     [CAS, STRIKE, ANTISHIP, OCA_AIRCRAFT, OCA_RUNWAY, BAI, DEAD, TRANSPORT, AIR_ASSAULT,
      ARMED_RECON, SEAD, SEAD_SWEEP, TARCAP, BARCAP, AEWC, FERRY, RECOVERY, REFUELING,
      SWEEP, SEAD_ESCORT, ESCORT]"
  shows
  "(primary_task w p = None \<longleftrightarrow> flights (package_objs w p) = []) \<and>
   (flights (package_objs w p) \<noteq> [] \<and> set types \<inter> set priority \<noteq> {} \<longrightarrow>
      (\<exists>i < length priority.
         primary_task w p = Some (priority ! i) \<and>
         priority ! i \<in> set types \<and>
         (\<forall>j < i. priority ! j \<notin> set types))) \<and>
   (flights (package_objs w p) \<noteq> [] \<and> set types \<inter> set priority = {} \<longrightarrow>
      primary_task w p = Some (flight_type (flight_objs w (hd (flights (package_objs w p))))))"
proof -
  have pr: "priority = tasks_by_priority"
    by (simp add: priority_def tasks_by_priority_def)
  show ?thesis
    unfolding pr types_def by (rule primary_task_by_list)
qed

theorem primary_task_priority_witness:
  "flights (package_objs example_world 0) \<noteq> [] \<and>
   flight_types example_world 0 = [ESCORT, PRETENSE_CARGO, STRIKE] \<and>
   primary_task example_world 0 = Some STRIKE \<and>
   flights (package_objs example_world 2) \<noteq> [] \<and>
   flight_types example_world 2 = [PRETENSE_CARGO] \<and>
   primary_task example_world 2 = Some PRETENSE_CARGO \<and>
   flights (package_objs example_world 1) = [] \<and>
   primary_task example_world 1 = None"
proof -
  let ?priority = "[CAS, STRIKE, ANTISHIP, OCA_AIRCRAFT, OCA_RUNWAY, BAI, DEAD, TRANSPORT,
      AIR_ASSAULT, ARMED_RECON, SEAD, SEAD_SWEEP, TARCAP, BARCAP, AEWC, FERRY, RECOVERY,
      REFUELING, SWEEP, SEAD_ESCORT, ESCORT]"
  have a: "flights (package_objs example_world 0) \<noteq> []"
    by (simp add: example_world_def new_Package_def)
  have c: "flights (package_objs example_world 2) \<noteq> []"
    by (simp add: example_world_def new_Package_def)
  have e: "flights (package_objs example_world 1) = []"
    by (simp add: example_world_def new_Package_def)
  have h: "flight_type (flight_objs example_world (hd (flights (package_objs example_world 2))))
      = PRETENSE_CARGO"
    by (simp add: example_world_def new_Package_def a_flight_def)
  note t0 = primary_task_priority [of example_world 0, unfolded example_flight_types]
  note t1 = primary_task_priority [of example_world 1]
  note t2 = primary_task_priority [of example_world 2, unfolded example_flight_types]
  from t0 a obtain i where i: "i < length ?priority"
    "primary_task example_world 0 = Some (?priority ! i)"
    "?priority ! i \<in> set [ESCORT, PRETENSE_CARGO, STRIKE]"
    "\<forall>j < i. ?priority ! j \<notin> set [ESCORT, PRETENSE_CARGO, STRIKE]"
    by auto
  have "\<not> 1 < i"
  proof
    assume "1 < i"
    with i(4) have "?priority ! 1 \<notin> set [ESCORT, PRETENSE_CARGO, STRIKE]" by blast
    then show False by simp
  qed
  then have "i = 0 \<or> i = 1" by auto
  with i(3) have "i = 1" by auto
  with i(2) have s0: "primary_task example_world 0 = Some STRIKE" by simp
  from t2 c h have s2: "primary_task example_world 2 = Some PRETENSE_CARGO" by simp
  from t1 e have s1: "primary_task example_world 1 = None" by blast
  show ?thesis
    by (intro conjI a c e s0 s1 s2 example_flight_types)
qed

subsection \<open>The departure airfield\<close>

lemma first_departure_find:
  "first_departure w fs airfields =
     find (\<lambda>a. a \<in> (\<lambda>f. departure (flight_objs w f)) ` set fs) airfields"
  by (induction airfields) (auto simp: list_ex_iff)

lemma sorted_map_nth_le:
  "sorted (map k xs) \<Longrightarrow> i < length xs \<Longrightarrow> a \<in> set xs \<Longrightarrow> (\<forall>j<i. xs ! j \<noteq> a) \<Longrightarrow> k (xs ! i) \<le> k a"
proof -
  assume s: "sorted (map k xs)" and i: "i < length xs" and a: "a \<in> set xs" and n: "\<forall>j<i. xs ! j \<noteq> a"
  from a obtain m where m: "m < length xs" "xs ! m = a" by (auto simp: in_set_conv_nth)
  with n have "i \<le> m" by (metis not_le_imp_less)
  with s m i have "map k xs ! i \<le> map k xs ! m"
    by (simp add: sorted_iff_nth_mono del: nth_map)
  with m i show ?thesis by simp
qed

text \<open>
  C10. \<open>Package.departure_closest_to_target\<close> raises \<open>RuntimeError\<close> for a package with no
  flights, and raises \<open>RuntimeError\<close> when no airfield the cache offers is the departure of
  a flight of the package; otherwise it returns the first offered airfield that is the
  departure of some flight of the package, and when the cache offers the airfields by
  increasing distance to the target, no other such airfield is nearer.
\<close>

theorem departure_closest_to_target_first:
  fixes airfield_distance :: "MissionTarget \<Rightarrow> ControlPoint \<Rightarrow> rat"
    and w :: "('db, 'sq) world" and p :: package_ref
    and operational_airfields :: "MissionTarget \<Rightarrow> ControlPoint list"
  defines "pk \<equiv> package_objs w p"
  defines "departures \<equiv> (\<lambda>f. departure (flight_objs w f)) ` set (flights (package_objs w p))"
  defines "airfields \<equiv> operational_airfields (target (package_objs w p))"
  shows
  "(flights pk = [] \<longrightarrow>
      departure_closest_to_target operational_airfields w p =
        Inl (RuntimeError ''Cannot determine source airfield for package with no flights'')) \<and>
   (flights pk \<noteq> [] \<and> set airfields \<inter> departures = {} \<longrightarrow>
      departure_closest_to_target operational_airfields w p =
        Inl (RuntimeError ''Could not find any airfield assigned to this package'')) \<and>
   (flights pk \<noteq> [] \<and> set airfields \<inter> departures \<noteq> {} \<longrightarrow>
      (\<exists>i < length airfields.
         departure_closest_to_target operational_airfields w p = Inr (airfields ! i) \<and>
         airfields ! i \<in> departures \<and>
         (\<forall>j < i. airfields ! j \<notin> departures) \<and>
         (sorted (map (airfield_distance (target pk)) airfields) \<longrightarrow>
            (\<forall>a \<in> set airfields \<inter> departures.
               airfield_distance (target pk) (airfields ! i) \<le> airfield_distance (target pk) a))))"
proof (intro conjI impI)
  assume "flights pk = []"
  then show "departure_closest_to_target operational_airfields w p =
        Inl (RuntimeError ''Cannot determine source airfield for package with no flights'')"
    by (simp add: departure_closest_to_target_def pk_def)
next
  assume a: "flights pk \<noteq> [] \<and> set airfields \<inter> departures = {}"
  then have "find (\<lambda>a. a \<in> departures) airfields = None"
    by (auto simp: find_None_iff)
  with a show "departure_closest_to_target operational_airfields w p =
        Inl (RuntimeError ''Could not find any airfield assigned to this package'')"
    by (simp add: departure_closest_to_target_def pk_def first_departure_find departures_def
        airfields_def)
next
  assume a: "flights pk \<noteq> [] \<and> set airfields \<inter> departures \<noteq> {}"
  then obtain x where "find (\<lambda>a. a \<in> departures) airfields = Some x"
    by (cases "find (\<lambda>a. a \<in> departures) airfields") (auto simp: find_None_iff)
  then obtain i where i: "i < length airfields" "airfields ! i \<in> departures"
      "x = airfields ! i" "\<forall>j<i. airfields ! j \<notin> departures"
    and f: "find (\<lambda>a. a \<in> departures) airfields = Some (airfields ! i)"
    by (auto simp: find_Some_iff)
  have r: "departure_closest_to_target operational_airfields w p = Inr (airfields ! i)"
    using a f
    by (simp add: departure_closest_to_target_def pk_def first_departure_find departures_def
        airfields_def)
  have "\<forall>a \<in> set airfields \<inter> departures.
          airfield_distance (target pk) (airfields ! i) \<le> airfield_distance (target pk) a"
    if s: "sorted (map (airfield_distance (target pk)) airfields)"
  proof
    fix a assume "a \<in> set airfields \<inter> departures"
    then have "a \<in> set airfields" "\<forall>j<i. airfields ! j \<noteq> a" using i(4) by auto
    with s i(1) show "airfield_distance (target pk) (airfields ! i) \<le> airfield_distance (target pk) a"
      by (rule_tac sorted_map_nth_le) auto
  qed
  with r i show "\<exists>i < length airfields.
         departure_closest_to_target operational_airfields w p = Inr (airfields ! i) \<and>
         airfields ! i \<in> departures \<and>
         (\<forall>j < i. airfields ! j \<notin> departures) \<and>
         (sorted (map (airfield_distance (target pk)) airfields) \<longrightarrow>
            (\<forall>a \<in> set airfields \<inter> departures.
               airfield_distance (target pk) (airfields ! i) \<le> airfield_distance (target pk) a))"
    by blast
qed

lemma example_package0:
  "flights (package_objs example_world 0) = [0, 1, 2]"
  "target (package_objs example_world 0) = 5"
  by (simp_all add: example_world_def new_Package_def)

lemma example_departures:
  "(\<lambda>f. departure (flight_objs example_world f)) ` set (flights (package_objs example_world 0)) = {7, 8}"
  by (auto simp add: example_world_def new_Package_def a_flight_def)

theorem departure_closest_to_target_first_witness:
  "flights (package_objs example_world 0) \<noteq> [] \<and>
   set (example_airfields (target (package_objs example_world 0))) \<inter>
     (\<lambda>f. departure (flight_objs example_world f)) ` set (flights (package_objs example_world 0)) \<noteq> {} \<and>
   sorted (map (example_distance (target (package_objs example_world 0)))
             (example_airfields (target (package_objs example_world 0)))) \<and>
   (\<exists>i < length (example_airfields (target (package_objs example_world 0))).
      departure_closest_to_target example_airfields example_world 0 =
        Inr (example_airfields (target (package_objs example_world 0)) ! i) \<and>
      (\<forall>a \<in> set (example_airfields (target (package_objs example_world 0))) \<inter>
         (\<lambda>f. departure (flight_objs example_world f)) ` set (flights (package_objs example_world 0)).
         example_distance (target (package_objs example_world 0))
           (example_airfields (target (package_objs example_world 0)) ! i)
         \<le> example_distance (target (package_objs example_world 0)) a)) \<and>
   departure_closest_to_target example_airfields example_world 1 =
     Inl (RuntimeError ''Cannot determine source airfield for package with no flights'')"
proof -
  have a: "flights (package_objs example_world 0) \<noteq> []"
    by (simp add: example_package0)
  have b: "set (example_airfields (target (package_objs example_world 0))) \<inter>
     (\<lambda>f. departure (flight_objs example_world f)) ` set (flights (package_objs example_world 0)) \<noteq> {}"
    by (simp add: example_departures example_airfields_def)
  have c: "sorted (map (example_distance (target (package_objs example_world 0)))
             (example_airfields (target (package_objs example_world 0))))"
    by (simp add: example_airfields_def example_distance_def)
  have d: "flights (package_objs example_world 1) = []"
    by (simp add: example_world_def new_Package_def)
  from departure_closest_to_target_first [of example_world 0 example_airfields example_distance] a b c
  have "\<exists>i < length (example_airfields (target (package_objs example_world 0))).
      departure_closest_to_target example_airfields example_world 0 =
        Inr (example_airfields (target (package_objs example_world 0)) ! i) \<and>
      (\<forall>a \<in> set (example_airfields (target (package_objs example_world 0))) \<inter>
         (\<lambda>f. departure (flight_objs example_world f)) ` set (flights (package_objs example_world 0)).
         example_distance (target (package_objs example_world 0))
           (example_airfields (target (package_objs example_world 0)) ! i)
         \<le> example_distance (target (package_objs example_world 0)) a)"
    by blast
  moreover from departure_closest_to_target_first [of example_world 1 example_airfields example_distance] d
  have "departure_closest_to_target example_airfields example_world 1 =
     Inl (RuntimeError ''Cannot determine source airfield for package with no flights'')"
    by blast
  ultimately show ?thesis using a b c by blast
qed

subsection \<open>Removing a flight\<close>

lemma remove_flight_missing:
  "f \<notin> set (flights (package_objs w p)) \<Longrightarrow>
   remove_flight db_remove rpa p f w = (Some (ValueError ''list.remove(x): x not in list''), w)"
  by (simp add: remove_flight_def)

lemma remove_flight_done:
  assumes "f \<in> set (flights (package_objs w p))"
    and "db_remove (flight_id (flight_objs w f)) (db_objs w (db (package_objs w p))) = Inr d"
  shows "remove_flight db_remove rpa p f w =
    (None,
     w\<lparr>package_objs := (package_objs w)
          (p := (package_objs w p)
             \<lparr>flights := remove1 f (flights (package_objs w p)),
              waypoints := (if remove1 f (flights (package_objs w p)) = [] then None
                            else waypoints (package_objs w p))\<rparr>),
       db_objs := (db_objs w)(db (package_objs w p) := d),
       squadrons := rpa (flight_objs w f) (squadrons w),
       transfer_objs := (case cargo (flight_objs w f) of
                           None \<Rightarrow> transfer_objs w
                         | Some c \<Rightarrow> (transfer_objs w)(c := (transfer_objs w c)\<lparr>transport := None\<rparr>))\<rparr>)"
  using assms
  by (cases "cargo (flight_objs w f)") (simp_all add: remove_flight_def set_package_def Let_def)

lemma remove_flight_keeps:
  "target (package_objs (snd (remove_flight db_remove rpa p f w)) q) = target (package_objs w q) \<and>
   custom_name (package_objs (snd (remove_flight db_remove rpa p f w)) q) = custom_name (package_objs w q) \<and>
   time_over_target (package_objs (snd (remove_flight db_remove rpa p f w)) q) = time_over_target (package_objs w q)"
  by (simp add: remove_flight_def set_package_def Let_def split: sum.splits option.splits)

text \<open>
  C6. \<open>Package.remove_flight\<close>, for a flight that is in the package's list and whose id
  the database removes: it returns normally, one occurrence of the flight (the first) is
  gone from the flights list and nothing else, the flight's pilots and aircraft are
  returned, the transport of its cargo (if it has cargo) is \<open>None\<close> and no other transfer
  changes, and the waypoints are \<open>None\<close> when the list became empty and unchanged otherwise.
  For a flight that is not in the list it raises \<open>ValueError\<close> and changes nothing. In every
  case, also when it raises, the target, custom_name and time_over_target of every package
  are unchanged.
\<close>

theorem remove_flight_effects:
  "(f \<notin> set (flights (package_objs w p)) \<longrightarrow>
      remove_flight db_remove return_pilots_and_aircraft p f w =
        (Some (ValueError ''list.remove(x): x not in list''), w)) \<and>
   (f \<in> set (flights (package_objs w p)) \<and>
    db_remove (flight_id (flight_objs w f)) (db_objs w (db (package_objs w p))) = Inr d \<longrightarrow>
      (\<exists>w'. remove_flight db_remove return_pilots_and_aircraft p f w = (None, w') \<and>
         flights (package_objs w' p) = remove1 f (flights (package_objs w p)) \<and>
         mset (flights (package_objs w' p)) + {#f#} = mset (flights (package_objs w p)) \<and>
         squadrons w' = return_pilots_and_aircraft (flight_objs w f) (squadrons w) \<and>
         (\<forall>c. cargo (flight_objs w f) = Some c \<longrightarrow> transport (transfer_objs w' c) = None) \<and>
         (\<forall>c. cargo (flight_objs w f) \<noteq> Some c \<longrightarrow> transfer_objs w' c = transfer_objs w c) \<and>
         waypoints (package_objs w' p) =
           (if flights (package_objs w' p) = [] then None else waypoints (package_objs w p)) \<and>
         db_objs w' = (db_objs w)(db (package_objs w p) := d) \<and>
         flight_objs w' = flight_objs w \<and>
         (\<forall>q. q \<noteq> p \<longrightarrow> package_objs w' q = package_objs w q))) \<and>
   (\<forall>q. target (package_objs (snd (remove_flight db_remove return_pilots_and_aircraft p f w)) q)
          = target (package_objs w q) \<and>
        custom_name (package_objs (snd (remove_flight db_remove return_pilots_and_aircraft p f w)) q)
          = custom_name (package_objs w q) \<and>
        time_over_target (package_objs (snd (remove_flight db_remove return_pilots_and_aircraft p f w)) q)
          = time_over_target (package_objs w q))"
proof (intro conjI impI allI)
  assume "f \<notin> set (flights (package_objs w p))"
  then show "remove_flight db_remove return_pilots_and_aircraft p f w =
        (Some (ValueError ''list.remove(x): x not in list''), w)"
    by (rule remove_flight_missing)
next
  assume a: "f \<in> set (flights (package_objs w p)) \<and>
    db_remove (flight_id (flight_objs w f)) (db_objs w (db (package_objs w p))) = Inr d"
  note r = remove_flight_done [of f w p db_remove d return_pilots_and_aircraft]
  show "\<exists>w'. remove_flight db_remove return_pilots_and_aircraft p f w = (None, w') \<and>
         flights (package_objs w' p) = remove1 f (flights (package_objs w p)) \<and>
         mset (flights (package_objs w' p)) + {#f#} = mset (flights (package_objs w p)) \<and>
         squadrons w' = return_pilots_and_aircraft (flight_objs w f) (squadrons w) \<and>
         (\<forall>c. cargo (flight_objs w f) = Some c \<longrightarrow> transport (transfer_objs w' c) = None) \<and>
         (\<forall>c. cargo (flight_objs w f) \<noteq> Some c \<longrightarrow> transfer_objs w' c = transfer_objs w c) \<and>
         waypoints (package_objs w' p) =
           (if flights (package_objs w' p) = [] then None else waypoints (package_objs w p)) \<and>
         db_objs w' = (db_objs w)(db (package_objs w p) := d) \<and>
         flight_objs w' = flight_objs w \<and>
         (\<forall>q. q \<noteq> p \<longrightarrow> package_objs w' q = package_objs w q)"
    using a by (simp add: r split: option.splits)
qed (simp_all add: remove_flight_keeps)

theorem remove_flight_effects_witness:
  "1 \<in> set (flights (package_objs example_world 0)) \<and>
   dict_remove (flight_id (flight_objs example_world 1))
     (db_objs example_world (db (package_objs example_world 0))) = Inr [(100, 0), (102, 2), (103, 3)] \<and>
   (\<exists>w'. remove_flight dict_remove (\<lambda>fl sq. Suc sq) 0 1 example_world = (None, w') \<and>
      flights (package_objs w' 0) = [0, 2] \<and>
      squadrons w' = 1 \<and>
      transport (transfer_objs w' 0) = None \<and>
      waypoints (package_objs w' 0) = Some 1) \<and>
   7 \<notin> set (flights (package_objs example_world 0)) \<and>
   remove_flight dict_remove (\<lambda>fl sq. Suc sq) 0 7 example_world =
     (Some (ValueError ''list.remove(x): x not in list''), example_world)"
proof -
  have a: "1 \<in> set (flights (package_objs example_world 0))"
    by (simp add: example_package0)
  have b: "dict_remove (flight_id (flight_objs example_world 1))
     (db_objs example_world (db (package_objs example_world 0))) = Inr [(100, 0), (102, 2), (103, 3)]"
    by (simp add: example_world_def dict_remove_def a_flight_def new_Package_def)
  have c: "cargo (flight_objs example_world 1) = Some 0"
    "squadrons example_world = 0" "waypoints (package_objs example_world 0) = Some 1"
    by (simp_all add: example_world_def a_flight_def new_Package_def)
  have d: "7 \<notin> set (flights (package_objs example_world 0))"
    by (simp add: example_package0)
  from remove_flight_effects [where f = 1 and w = example_world and p = 0
      and db_remove = dict_remove and d = "[(100, 0), (102, 2), (103, 3)]"
      and return_pilots_and_aircraft = "\<lambda>fl sq. Suc sq"] a b c
  have "\<exists>w'. remove_flight dict_remove (\<lambda>fl sq. Suc sq) 0 1 example_world = (None, w') \<and>
      flights (package_objs w' 0) = [0, 2] \<and>
      squadrons w' = 1 \<and>
      transport (transfer_objs w' 0) = None \<and>
      waypoints (package_objs w' 0) = Some 1"
    by (auto simp: example_package0)
  moreover from remove_flight_effects [where f = 7 and w = example_world and p = 0
      and db_remove = dict_remove and return_pilots_and_aircraft = "\<lambda>fl sq. Suc sq"] d
  have "remove_flight dict_remove (\<lambda>fl sq. Suc sq) 0 7 example_world =
     (Some (ValueError ''list.remove(x): x not in list''), example_world)"
    by blast
  ultimately show ?thesis using a b d by blast
qed

subsection \<open>The time over target\<close>

lemma slowest_transit_Max:
  "slowest_transit transit_time w p =
     Max (insert 0 ((\<lambda>f. transit_or_arrived transit_time (flight_objs w f)) `
            set (flights (package_objs w p))))"
  unfolding slowest_transit_def by (simp add: Max.set_eq_fold [symmetric])

lemma slowest_transit_ge:
  "f \<in> set (flights (package_objs w p)) \<Longrightarrow>
   transit_or_arrived transit_time (flight_objs w f) \<le> slowest_transit transit_time w p"
  unfolding slowest_transit_Max by (rule Max_ge) auto

lemma slowest_transit_attained:
  "slowest_transit transit_time w p = 0 \<or>
   (\<exists>f \<in> set (flights (package_objs w p)).
      slowest_transit transit_time w p = transit_or_arrived transit_time (flight_objs w f))"
proof -
  let ?S = "insert 0 ((\<lambda>f. transit_or_arrived transit_time (flight_objs w f)) `
            set (flights (package_objs w p)))"
  have "Max ?S \<in> ?S" by (rule Max_in) auto
  then show ?thesis unfolding slowest_transit_Max by auto
qed

text \<open>
  C8. \<open>Package.set_tot_asap\<close> stores the estimator's result as the package's
  time_over_target and changes nothing else. With the estimator as the spec describes it,
  that time is \<open>now\<close> plus the slowest transit plus the buffer: it is no earlier than
  \<open>now\<close> plus transit plus buffer for every flight that has a flight plan, it is equal to
  that for some such flight or equal to \<open>now\<close> plus the buffer, and it is \<open>now\<close> plus the
  buffer when no flight has a flight plan. The estimator is a total function: it has no
  error case.
\<close>

theorem set_tot_asap_earliest:
  fixes w :: "('db, 'sq) world" and p :: package_ref and time_now :: datetime
    and transit_time :: "Flight \<Rightarrow> nat option" and buffer :: nat
  defines "w' \<equiv> set_tot_asap (earliest_tot transit_time buffer) p time_now w"
  defines "tot \<equiv> time_over_target (package_objs (set_tot_asap (earliest_tot transit_time buffer) p time_now w) p)"
  shows
  "tot = time_now + int (slowest_transit transit_time w p) + int buffer \<and>
   (\<forall>f \<in> set (flights (package_objs w p)). \<forall>d.
      transit_time (flight_objs w f) = Some d \<longrightarrow> time_now + int d + int buffer \<le> tot) \<and>
   (tot = time_now + int buffer \<or>
    (\<exists>f \<in> set (flights (package_objs w p)). \<exists>d.
       transit_time (flight_objs w f) = Some d \<and> tot = time_now + int d + int buffer)) \<and>
   ((\<forall>f \<in> set (flights (package_objs w p)). transit_time (flight_objs w f) = None) \<longrightarrow>
      tot = time_now + int buffer) \<and>
   flights (package_objs w' p) = flights (package_objs w p) \<and>
   target (package_objs w' p) = target (package_objs w p) \<and>
   waypoints (package_objs w' p) = waypoints (package_objs w p) \<and>
   (\<forall>q. q \<noteq> p \<longrightarrow> package_objs w' q = package_objs w q) \<and>
   flight_objs w' = flight_objs w"
proof -
  have tot: "tot = time_now + int (slowest_transit transit_time w p) + int buffer"
    by (simp add: tot_def set_tot_asap_def set_package_def earliest_tot_def)
  have ge: "time_now + int d + int buffer \<le> tot"
    if "f \<in> set (flights (package_objs w p))" "transit_time (flight_objs w f) = Some d" for f d
    using slowest_transit_ge [OF that(1), of transit_time] that(2)
    by (simp add: tot transit_or_arrived_def)
  have att: "tot = time_now + int buffer \<or>
    (\<exists>f \<in> set (flights (package_objs w p)). \<exists>d.
       transit_time (flight_objs w f) = Some d \<and> tot = time_now + int d + int buffer)"
  proof -
    from slowest_transit_attained [of transit_time w p]
    consider "slowest_transit transit_time w p = 0"
      | f where "f \<in> set (flights (package_objs w p))"
          "slowest_transit transit_time w p = transit_or_arrived transit_time (flight_objs w f)"
      by auto
    then show ?thesis
    proof cases
      case 1 then show ?thesis by (simp add: tot)
    next
      case 2
      show ?thesis
      proof (cases "transit_time (flight_objs w f)")
        case None
        with 2 show ?thesis by (simp add: tot transit_or_arrived_def)
      next
        case (Some d)
        with 2 have "tot = time_now + int d + int buffer" by (simp add: tot transit_or_arrived_def)
        with 2(1) Some show ?thesis by blast
      qed
    qed
  qed
  have none: "tot = time_now + int buffer"
    if "\<forall>f \<in> set (flights (package_objs w p)). transit_time (flight_objs w f) = None"
    using att that by auto
  have frame: "flights (package_objs w' p) = flights (package_objs w p) \<and>
   target (package_objs w' p) = target (package_objs w p) \<and>
   waypoints (package_objs w' p) = waypoints (package_objs w p) \<and>
   (\<forall>q. q \<noteq> p \<longrightarrow> package_objs w' q = package_objs w q) \<and>
   flight_objs w' = flight_objs w"
    by (simp add: w'_def set_tot_asap_def set_package_def)
  from tot ge att none frame show ?thesis by blast
qed

theorem set_tot_asap_earliest_witness:
  "2 \<in> set (flights (package_objs example_world 0)) \<and>
   example_transit (flight_objs example_world 2) = Some 1800 \<and>
   1000 + int 1800 + int 300 \<le>
     time_over_target (package_objs (set_tot_asap (earliest_tot example_transit 300) 0 1000 example_world) 0) \<and>
   flights (package_objs example_world 1) = [] \<and>
   time_over_target (package_objs (set_tot_asap (earliest_tot example_transit 300) 1 1000 example_world) 1)
     = 1000 + int 300"
proof -
  have e: "flights (package_objs example_world 1) = []"
    by (simp add: example_world_def new_Package_def)
  have a: "2 \<in> set (flights (package_objs example_world 0))"
    by (simp add: example_package0)
  have b: "example_transit (flight_objs example_world 2) = Some 1800"
    by (simp add: example_transit_def example_world_def a_flight_def)
  have c: "\<forall>f \<in> set (flights (package_objs example_world 1)).
      example_transit (flight_objs example_world f) = None"
    by (simp add: example_world_def new_Package_def)
  from set_tot_asap_earliest [of example_transit 300 0 1000 example_world] a b
  have "1000 + int 1800 + int 300 \<le>
     time_over_target (package_objs (set_tot_asap (earliest_tot example_transit 300) 0 1000 example_world) 0)"
    by blast
  moreover from set_tot_asap_earliest [of example_transit 300 1 1000 example_world] c
  have "time_over_target (package_objs (set_tot_asap (earliest_tot example_transit 300) 1 1000 example_world) 1)
     = 1000 + int 300" by blast
  ultimately show ?thesis using a b e by blast
qed


subsection \<open>Ownership of flights\<close>

lemma add_flight_packages:
  "package_objs (snd (add_flight db_add p f w)) =
     (package_objs w)(p := (package_objs w p)\<lparr>flights := flights (package_objs w p) @ [f]\<rparr>)"
  by (simp add: add_flight_def set_package_def Let_def split: sum.splits)

lemma add_flight_frame:
  "flight_objs (snd (add_flight db_add p f w)) = flight_objs w"
  "next_flight (snd (add_flight db_add p f w)) = next_flight w"
  "next_package (snd (add_flight db_add p f w)) = next_package w"
  "transfer_objs (snd (add_flight db_add p f w)) = transfer_objs w"
  "squadrons (snd (add_flight db_add p f w)) = squadrons w"
  by (simp_all add: add_flight_def set_package_def Let_def split: sum.splits)

lemma add_flight_db:
  "db_add (flight_id (flight_objs w f)) f (db_objs w (db (package_objs w p))) = Inr d \<Longrightarrow>
   add_flight db_add p f w =
     (None, w\<lparr>package_objs := (package_objs w)
                 (p := (package_objs w p)\<lparr>flights := flights (package_objs w p) @ [f]\<rparr>),
              db_objs := (db_objs w)(db (package_objs w p) := d)\<rparr>)"
  by (simp add: add_flight_def set_package_def Let_def)

lemma remove_flight_packages:
  "q \<noteq> p \<Longrightarrow>
   package_objs (snd (remove_flight db_remove rpa p f w)) q = package_objs w q"
  by (simp add: remove_flight_def set_package_def Let_def split: sum.splits option.splits)

lemma remove_flight_subset:
  "set (flights (package_objs (snd (remove_flight db_remove rpa p f w)) q))
     \<subseteq> set (flights (package_objs w q))"
  using set_remove1_subset [of f "flights (package_objs w p)"]
  by (auto simp add: remove_flight_def set_package_def Let_def
      split: sum.splits option.splits if_splits)

lemma remove_flight_next:
  "next_package (snd (remove_flight db_remove rpa p f w)) = next_package w"
  by (simp add: remove_flight_def set_package_def Let_def split: sum.splits option.splits)

lemma clone_flights_loop:
  "clone_flights clone_flight db_add c fs w = (e, w') \<Longrightarrow>
   next_package w' = next_package w \<and>
   next_flight w \<le> next_flight w' \<and>
   (\<forall>q. q \<noteq> c \<longrightarrow> package_objs w' q = package_objs w q) \<and>
   package_objs w' c = (package_objs w c)
     \<lparr>flights := flights (package_objs w c) @ [next_flight w ..< next_flight w']\<rparr> \<and>
   (\<forall>r. next_flight w \<le> r \<and> r < next_flight w' \<longrightarrow> package (flight_objs w' r) = c) \<and>
   (\<forall>r < next_flight w. flight_objs w' r = flight_objs w r) \<and>
   (e = None \<longrightarrow> next_flight w' = next_flight w + length fs)"
proof (induction fs arbitrary: w e w')
  case Nil
  then show ?case by simp
next
  case (Cons f fs)
  define new where "new = (clone_flight (flight_objs w f))
      \<lparr>layout := layout (flight_objs w f), package := c\<rparr>"
  define w1 where "w1 = w\<lparr>flight_objs := (flight_objs w)(next_flight w := new),
      next_flight := Suc (next_flight w)\<rparr>"
  define r where "r = add_flight db_add c (next_flight w) w1"
  have w2p: "package_objs (snd r) =
      (package_objs w)(c := (package_objs w c)\<lparr>flights := flights (package_objs w c) @ [next_flight w]\<rparr>)"
    by (simp add: r_def add_flight_packages w1_def)
  have w2f: "flight_objs (snd r) = (flight_objs w)(next_flight w := new)"
    "next_flight (snd r) = Suc (next_flight w)" "next_package (snd r) = next_package w"
    by (simp_all add: r_def add_flight_frame w1_def)
  have step: "clone_flights clone_flight db_add c (f # fs) w =
     (case r of (Some e, w2) \<Rightarrow> (Some e, w2)
              | (None, w2) \<Rightarrow> clone_flights clone_flight db_add c fs w2)"
    by (simp add: r_def w1_def new_def Let_def)
  show ?case
  proof (cases "fst r")
    case (Some e1)
    then have "r = (Some e1, snd r)" by (cases r) simp
    with step Cons.prems have "e = Some e1" "w' = snd r"
      by (simp_all split: prod.splits)
    then show ?thesis using w2p w2f by (auto simp: new_def)
  next
    case None
    then have "r = (None, snd r)" by (cases r) simp
    with step Cons.prems have "clone_flights clone_flight db_add c fs (snd r) = (e, w')"
      by (simp split: prod.splits)
    from Cons.IH [OF this] have ih:
      "next_package w' = next_package (snd r)"
      "next_flight (snd r) \<le> next_flight w'"
      "\<forall>q. q \<noteq> c \<longrightarrow> package_objs w' q = package_objs (snd r) q"
      "package_objs w' c = (package_objs (snd r) c)
         \<lparr>flights := flights (package_objs (snd r) c) @ [next_flight (snd r) ..< next_flight w']\<rparr>"
      "\<forall>x. next_flight (snd r) \<le> x \<and> x < next_flight w' \<longrightarrow> package (flight_objs w' x) = c"
      "\<forall>x < next_flight (snd r). flight_objs w' x = flight_objs (snd r) x"
      "e = None \<longrightarrow> next_flight w' = next_flight (snd r) + length fs"
      by blast+
    have le: "next_flight w < next_flight w'" using ih(2) w2f(2) by simp
    have a: "package_objs w' c = (package_objs w c)
        \<lparr>flights := flights (package_objs w c) @ [next_flight w ..< next_flight w']\<rparr>"
      using ih(4) le by (simp add: w2p w2f upt_conv_Cons)
    have b: "package (flight_objs w' x) = c" if "next_flight w \<le> x" "x < next_flight w'" for x
    proof (cases "x = next_flight w")
      case True
      then have "flight_objs w' x = new" using ih(6) by (simp add: w2f)
      then show ?thesis by (simp add: new_def)
    next
      case False
      with that ih(5) show ?thesis by (simp add: w2f)
    qed
    have c: "flight_objs w' x = flight_objs w x" if "x < next_flight w" for x
      using ih(6) that by (simp add: w2f)
    from ih(1,3,7) a b c le show ?thesis by (simp add: w2p w2f)
  qed
qed
lemma clone_package_result:
  assumes "clone_package clone_flight db_add p w = (r, w')"
  shows "next_package w' = Suc (next_package w)"
    and "next_flight w \<le> next_flight w'"
    and "\<forall>q. q \<noteq> next_package w \<longrightarrow> package_objs w' q = package_objs w q"
    and "package_objs w' (next_package w) =
           (new_Package (target (package_objs w p)) (db (package_objs w p))
              (auto_asap (package_objs w p)))
           \<lparr>time_over_target := time_over_target (package_objs w p),
            flights := [next_flight w ..< next_flight w']\<rparr>"
    and "\<forall>x. next_flight w \<le> x \<and> x < next_flight w' \<longrightarrow>
           package (flight_objs w' x) = next_package w"
    and "\<forall>x < next_flight w. flight_objs w' x = flight_objs w x"
    and "r = Inr (next_package w) \<or> (\<exists>e. r = Inl e)"
    and "r = Inr (next_package w) \<longrightarrow>
           next_flight w' = next_flight w + length (flights (package_objs w p))"
proof -
  define w2 where "w2 = w\<lparr>next_package := Suc (next_package w),
      package_objs := (package_objs w)
      (next_package w := (new_Package (target (package_objs w p)) (db (package_objs w p))
              (auto_asap (package_objs w p)))
            \<lparr>time_over_target := time_over_target (package_objs w p)\<rparr>)\<rparr>"
  define l where "l = clone_flights clone_flight db_add (next_package w)
      (flights (package_objs w p)) w2"
  have cp: "clone_package clone_flight db_add p w =
      (case l of (Some e, w3) \<Rightarrow> (Inl e, w3) | (None, w3) \<Rightarrow> (Inr (next_package w), w3))"
    by (simp add: clone_package_def l_def w2_def set_package_def Let_def)
  have w': "w' = snd l"
    and r: "r = (case fst l of Some e \<Rightarrow> Inl e | None \<Rightarrow> Inr (next_package w))"
    using assms cp by (auto split: prod.splits option.splits)
  have "clone_flights clone_flight db_add (next_package w) (flights (package_objs w p)) w2
      = (fst l, w')"
    by (simp add: l_def w')
  note loop = clone_flights_loop [OF this]
  show "next_package w' = Suc (next_package w)" using loop by (simp add: w2_def)
  show "next_flight w \<le> next_flight w'" using loop by (simp add: w2_def)
  show "\<forall>q. q \<noteq> next_package w \<longrightarrow> package_objs w' q = package_objs w q"
    using loop by (simp add: w2_def)
  show "package_objs w' (next_package w) =
           (new_Package (target (package_objs w p)) (db (package_objs w p))
              (auto_asap (package_objs w p)))
           \<lparr>time_over_target := time_over_target (package_objs w p),
            flights := [next_flight w ..< next_flight w']\<rparr>"
    using loop by (simp add: w2_def new_Package_def)
  show "\<forall>x. next_flight w \<le> x \<and> x < next_flight w' \<longrightarrow>
           package (flight_objs w' x) = next_package w"
    using loop by (simp add: w2_def)
  show "\<forall>x < next_flight w. flight_objs w' x = flight_objs w x"
    using loop by (simp add: w2_def)
  show "r = Inr (next_package w) \<or> (\<exists>e. r = Inl e)"
    by (simp add: r split: option.splits)
  show "r = Inr (next_package w) \<longrightarrow>
           next_flight w' = next_flight w + length (flights (package_objs w p))"
    using loop by (auto simp: r w2_def split: option.splits)
qed

lemma single_owner_add_flight:
  assumes "single_owner w"
    and "\<forall>q \<in> set [0..<next_package w]. q \<noteq> p \<longrightarrow> f \<notin> flights_of w q"
  shows "single_owner (snd (add_flight db_add p f w))"
  using assms unfolding single_owner_def flights_of_def
  by (auto simp: add_flight_packages add_flight_frame)

lemma single_owner_remove_flight:
  assumes "single_owner w"
  shows "single_owner (snd (remove_flight db_remove rpa p f w))"
  unfolding single_owner_def flights_of_def remove_flight_next
proof (intro ballI impI)
  fix a b assume ab: "a \<in> set [0..<next_package w]" "b \<in> set [0..<next_package w]" "a \<noteq> b"
  with assms have "set (flights (package_objs w a)) \<inter> set (flights (package_objs w b)) = {}"
    by (simp add: single_owner_def flights_of_def)
  then show "set (flights (package_objs (snd (remove_flight db_remove rpa p f w)) a)) \<inter>
       set (flights (package_objs (snd (remove_flight db_remove rpa p f w)) b)) = {}"
    using remove_flight_subset [of db_remove rpa p f w a]
      remove_flight_subset [of db_remove rpa p f w b] by blast
qed

lemma single_owner_clone_package:
  assumes "single_owner w" and "flights_allocated w"
  shows "single_owner (snd (clone_package clone_flight db_add p w))"
proof -
  obtain r w' where rw: "clone_package clone_flight db_add p w = (r, w')"
    by (cases "clone_package clone_flight db_add p w")
  note cp = clone_package_result [OF rw]
  have old: "flights_of w' q = flights_of w q" if "q < next_package w" for q
    using cp(3) that by (simp add: flights_of_def)
  have new: "flights_of w' (next_package w) = {next_flight w ..< next_flight w'}"
    using cp(4) by (simp add: flights_of_def)
  have disj: "flights_of w q \<inter> {next_flight w ..< next_flight w'} = {}" if "q < next_package w" for q
    using assms(2) that by (fastforce simp: flights_allocated_def)
  have "flights_of w' a \<inter> flights_of w' b = {}"
    if "a < Suc (next_package w)" "b < Suc (next_package w)" "a \<noteq> b" for a b
  proof -
    have "(a < next_package w \<and> b < next_package w) \<or>
          (a = next_package w \<and> b < next_package w) \<or>
          (a < next_package w \<and> b = next_package w)"
      using that by (auto simp: less_Suc_eq)
    then show ?thesis
    proof (elim disjE conjE)
      assume "a < next_package w" "b < next_package w"
      with assms(1) that(3) show ?thesis by (simp add: old single_owner_def)
    next
      assume "a = next_package w" "b < next_package w"
      then show ?thesis using disj [of b] by (simp add: old new Int_commute)
    next
      assume "a < next_package w" "b = next_package w"
      then show ?thesis using disj [of a] by (simp add: old new)
    qed
  qed
  then show ?thesis by (simp add: rw single_owner_def cp(1))
qed

lemma add_flight_unchecked:
  assumes "p < next_package w" and "q < next_package w" and "q \<noteq> p"
    and "f \<in> flights_of w q"
  shows "\<not> single_owner (snd (add_flight db_add p f w))"
proof
  assume so: "single_owner (snd (add_flight db_add p f w))"
  let ?w = "snd (add_flight db_add p f w)"
  have "f \<in> flights_of ?w p" "f \<in> flights_of ?w q"
    using assms by (simp_all add: flights_of_def add_flight_packages)
  moreover have "flights_of ?w p \<inter> flights_of ?w q = {}"
    using so assms unfolding single_owner_def by (simp add: add_flight_frame)
  ultimately show False by blast
qed

text \<open>
  C5, as stated, does not hold: \<open>add_flight\<close> does not look at the other packages. In the
  example store no flight is in two lists; adding flight 0 of package 0 to package 1 puts
  it in both lists. The database of the example refuses the second registration of the id,
  and the flight is in both lists all the same, since the append comes first.
\<close>

theorem add_flight_single_owner_counterexample:
  "single_owner example_world \<and>
   fst (add_flight dict_add 1 0 example_world) = Some (KeyError ''exists'') \<and>
   flights (package_objs (snd (add_flight dict_add 1 0 example_world)) 0) = [0, 1, 2] \<and>
   flights (package_objs (snd (add_flight dict_add 1 0 example_world)) 1) = [0] \<and>
   \<not> single_owner (snd (add_flight dict_add 1 0 example_world))"
  by code_simp

text \<open>
  C5, amended. \<open>add_flight\<close> appends the flight to the list of that package and changes no
  other package, and registers the flight under its id in the package's database when the
  database accepts it. \<open>remove_flight\<close> changes no other package. \<open>clone_package\<close> changes
  no existing package; the flights in the clone's list are new flight objects whose
  \<open>package\<close> is the clone, and when it returns, it returns the clone, with as many flights
  as the original. So "no flight is in the lists of two packages" is kept by
  \<open>remove_flight\<close>, by \<open>clone_package\<close>, and by \<open>add_flight\<close> of a flight that is in the
  list of no other package.
\<close>

theorem flight_ownership_preserved:
  fixes w :: "('db, 'sq) world" and p f :: nat
    and db_add :: "UUID \<Rightarrow> flight_ref \<Rightarrow> 'db \<Rightarrow> error + 'db"
    and db_remove :: "UUID \<Rightarrow> 'db \<Rightarrow> error + 'db"
    and return_pilots_and_aircraft :: "Flight \<Rightarrow> 'sq \<Rightarrow> 'sq"
    and clone_flight :: "Flight \<Rightarrow> Flight"
  defines "wa \<equiv> snd (add_flight db_add p f w)"
  defines "wr \<equiv> snd (remove_flight db_remove return_pilots_and_aircraft p f w)"
  defines "wc \<equiv> snd (clone_package clone_flight db_add p w)"
  shows
  "package_objs wa =
     (package_objs w)(p := (package_objs w p)\<lparr>flights := flights (package_objs w p) @ [f]\<rparr>) \<and>
   (db_add (flight_id (flight_objs w f)) f (db_objs w (db (package_objs w p))) = Inr d \<longrightarrow>
      fst (add_flight db_add p f w) = None \<and>
      db_objs wa = (db_objs w)(db (package_objs w p) := d)) \<and>
   (\<forall>q. q \<noteq> p \<longrightarrow> package_objs wr q = package_objs w q) \<and>
   (\<forall>q. q \<noteq> next_package w \<longrightarrow> package_objs wc q = package_objs w q) \<and>
   (\<forall>x \<in> flights_of wc (next_package w).
      next_flight w \<le> x \<and> package (flight_objs wc x) = next_package w) \<and>
   (\<forall>c. fst (clone_package clone_flight db_add p w) = Inr c \<longrightarrow>
      c = next_package w \<and>
      length (flights (package_objs wc c)) = length (flights (package_objs w p))) \<and>
   (single_owner w \<and> (\<forall>q \<in> set [0..<next_package w]. q \<noteq> p \<longrightarrow> f \<notin> flights_of w q) \<longrightarrow>
      single_owner wa) \<and>
   (single_owner w \<longrightarrow> single_owner wr) \<and>
   (single_owner w \<and> flights_allocated w \<longrightarrow> single_owner wc)"
proof -
  obtain r where rw: "clone_package clone_flight db_add p w = (r, wc)"
    by (cases "clone_package clone_flight db_add p w") (simp add: wc_def)
  note cp = clone_package_result [OF rw]
  have a: "package_objs wa =
     (package_objs w)(p := (package_objs w p)\<lparr>flights := flights (package_objs w p) @ [f]\<rparr>)"
    by (simp add: wa_def add_flight_packages)
  have b: "fst (add_flight db_add p f w) = None \<and>
      db_objs wa = (db_objs w)(db (package_objs w p) := d)"
    if "db_add (flight_id (flight_objs w f)) f (db_objs w (db (package_objs w p))) = Inr d"
    using that by (simp add: wa_def add_flight_db [of db_add w f p d])
  have c: "\<forall>q. q \<noteq> p \<longrightarrow> package_objs wr q = package_objs w q"
    by (simp add: wr_def remove_flight_packages)
  have e: "\<forall>x \<in> flights_of wc (next_package w).
      next_flight w \<le> x \<and> package (flight_objs wc x) = next_package w"
    using cp(5) by (simp add: flights_of_def cp(4))
  have g: "\<forall>c. fst (clone_package clone_flight db_add p w) = Inr c \<longrightarrow>
      c = next_package w \<and>
      length (flights (package_objs wc c)) = length (flights (package_objs w p))"
    using cp(7) cp(8) by (auto simp: rw cp(4))
  have h: "single_owner wa"
    if "single_owner w \<and> (\<forall>q \<in> set [0..<next_package w]. q \<noteq> p \<longrightarrow> f \<notin> flights_of w q)"
    unfolding wa_def using that by (intro single_owner_add_flight) blast+
  have i: "single_owner w \<longrightarrow> single_owner wr"
    by (simp add: wr_def single_owner_remove_flight)
  have j: "single_owner w \<and> flights_allocated w \<longrightarrow> single_owner wc"
    by (simp add: wc_def single_owner_clone_package)
  from a b c cp(3) e g h i j show ?thesis by blast
qed

theorem flight_ownership_preserved_witness:
  "single_owner example_world \<and> flights_allocated example_world \<and>
   dict_add (flight_id (flight_objs example_world 4)) 4
     (db_objs example_world (db (package_objs example_world 1)))
     = Inr [(100, 0), (101, 1), (102, 2), (103, 3), (104, 4)] \<and>
   fst (add_flight dict_add 1 4 example_world) = None \<and>
   single_owner (snd (add_flight dict_add 1 4 example_world)) \<and>
   single_owner (snd (remove_flight dict_remove (\<lambda>fl sq. Suc sq) 1 4 example_world)) \<and>
   single_owner (snd (clone_package example_clone_flight dict_add 1 example_world)) \<and>
   flights (package_objs (snd (remove_flight dict_remove (\<lambda>fl sq. Suc sq) 0 1 example_world)) 0)
     = [0, 2] \<and>
   single_owner (snd (remove_flight dict_remove (\<lambda>fl sq. Suc sq) 0 1 example_world)) \<and>
   fst (clone_package example_clone_flight dict_add 0 example_world) = Inr 3 \<and>
   flights (package_objs (snd (clone_package example_clone_flight dict_add 0 example_world)) 3)
     = [5, 6, 7] \<and>
   single_owner (snd (clone_package example_clone_flight dict_add 0 example_world))"
proof -
  have a: "single_owner example_world" by code_simp
  have b: "flights_allocated example_world" by code_simp
  have c: "\<forall>q \<in> set [0..<next_package example_world]. q \<noteq> 1 \<longrightarrow> 4 \<notin> flights_of example_world q"
    by code_simp
  have d: "dict_add (flight_id (flight_objs example_world 4)) 4
     (db_objs example_world (db (package_objs example_world 1)))
     = Inr [(100, 0), (101, 1), (102, 2), (103, 3), (104, 4)]"
    by code_simp
  note t = flight_ownership_preserved [where w = example_world and p = 1 and f = 4
      and db_add = dict_add and db_remove = dict_remove
      and return_pilots_and_aircraft = "\<lambda>fl sq. Suc sq"
      and clone_flight = example_clone_flight
      and d = "[(100, 0), (101, 1), (102, 2), (103, 3), (104, 4)]"]
  note u = flight_ownership_preserved [where w = example_world and p = 0 and f = 1
      and db_add = dict_add and db_remove = dict_remove
      and return_pilots_and_aircraft = "\<lambda>fl sq. Suc sq"
      and clone_flight = example_clone_flight]
  from t a b c d have e: "fst (add_flight dict_add 1 4 example_world) = None"
    "single_owner (snd (add_flight dict_add 1 4 example_world))"
    "single_owner (snd (remove_flight dict_remove (\<lambda>fl sq. Suc sq) 1 4 example_world))"
    "single_owner (snd (clone_package example_clone_flight dict_add 1 example_world))"
    by blast+
  from u a b have f:
    "single_owner (snd (remove_flight dict_remove (\<lambda>fl sq. Suc sq) 0 1 example_world))"
    "single_owner (snd (clone_package example_clone_flight dict_add 0 example_world))"
    by blast+
  have g: "flights (package_objs (snd (remove_flight dict_remove (\<lambda>fl sq. Suc sq) 0 1
      example_world)) 0) = [0, 2]"
    by code_simp
  have h: "fst (clone_package example_clone_flight dict_add 0 example_world) = Inr 3"
    by code_simp
  have i: "flights (package_objs (snd (clone_package example_clone_flight dict_add 0
      example_world)) 3) = [5, 6, 7]"
    by code_simp
  show ?thesis
    by (intro conjI a b d e f g h i)
qed

section \<open>Properties of the theater state\<close>

subsection \<open>clone\<close>

lemma replace_items_frame:
  "list_objs (snd (replace_items items h)) = list_objs h"
  "int_dict_objs (snd (replace_items items h)) = int_dict_objs h"
  "stance_dict_objs (snd (replace_items items h)) = stance_dict_objs h"
  "bp_dict_objs (snd (replace_items items h)) = bp_dict_objs h"
  "next_addr (snd (replace_items items h)) = next_addr h + length items"
  by (induction items h rule: replace_items.induct;
      simp add: new_BattlePositions_def split_def Let_def)+

lemma replace_items_old:
  "a < next_addr h \<Longrightarrow> bp_objs (snd (replace_items items h)) a = bp_objs h a"
  by (induction items h rule: replace_items.induct)
     (simp_all add: new_BattlePositions_def split_def Let_def)

lemma replace_items_keys:
  "map fst (fst (replace_items items h)) = map fst items"
  by (induction items h rule: replace_items.induct)
     (simp_all add: new_BattlePositions_def split_def Let_def)

lemma replace_items_new:
  "map snd (fst (replace_items items h)) = [next_addr h ..< next_addr h + length items]"
  by (induction items h rule: replace_items.induct)
     (simp_all add: new_BattlePositions_def split_def Let_def upt_conv_Cons del: upt_Suc)

lemma replace_items_values:
  "\<forall>g \<in> snd ` set items. g < next_addr h \<Longrightarrow>
   map (\<lambda>(cp, g). (cp, bp_objs (snd (replace_items items h)) g)) (fst (replace_items items h))
     = map (\<lambda>(cp, g). (cp, bp_objs h g)) items"
proof (induction items h rule: replace_items.induct)
  case (1 h)
  then show ?case by simp
next
  case (2 cp g items h)
  define h1 where "h1 = snd (new_BattlePositions (bp_objs h g) h)"
  have n1: "next_addr h1 = Suc (next_addr h)" and b1: "bp_objs h1 = (bp_objs h)(next_addr h := bp_objs h g)"
    by (simp_all add: h1_def new_BattlePositions_def)
  have "\<forall>g \<in> snd ` set items. g < next_addr h1" using 2(2) n1 by auto
  then have ih: "map (\<lambda>(cp, g). (cp, bp_objs (snd (replace_items items h1)) g)) (fst (replace_items items h1))
     = map (\<lambda>(cp, g). (cp, bp_objs h1 g)) items"
    using 2(1) [of "(next_addr h, h1)" "next_addr h" h1]
    by (simp add: h1_def new_BattlePositions_def)
  have "map (\<lambda>(cp, g). (cp, bp_objs h1 g)) items = map (\<lambda>(cp, g). (cp, bp_objs h g)) items"
    using 2(2) by (auto simp: b1)
  moreover have "bp_objs (snd (replace_items items h1)) (next_addr h) = bp_objs h g"
    using replace_items_old [of "next_addr h" h1 items] by (simp add: n1 b1)
  ultimately show ?case using ih
    by (simp add: split_def Let_def h1_def new_BattlePositions_def)
qed

lemma extends_refl: "extends h h"
  by (simp add: extends_def)

lemma extends_trans: "extends h1 h2 \<Longrightarrow> extends h2 h3 \<Longrightarrow> extends h1 h3"
  by (auto simp: extends_def)

lemma extends_new:
  "extends h (snd (new_list xs h))"
  "extends h (snd (new_int_dict d h))"
  "extends h (snd (new_stance_dict sd h))"
  "extends h (snd (new_bp_dict bd h))"
  "extends h (snd (new_BattlePositions g h))"
  by (simp_all add: extends_def new_list_def new_int_dict_def new_stance_dict_def
      new_bp_dict_def new_BattlePositions_def)

lemma extends_replace_items: "extends h (snd (replace_items items h))"
  by (simp add: extends_def replace_items_frame replace_items_old)

lemma copied_list:
  assumes "extends h0 h" and "a < next_addr h0"
    and "extends (snd (new_list (list_objs h a) h)) h'"
  shows "list_objs h' (next_addr h) = list_objs h0 a"
  using assms by (simp add: extends_def new_list_def)

lemma copied_int_dict:
  assumes "extends h0 h" and "a < next_addr h0"
    and "extends (snd (new_int_dict (int_dict_objs h a) h)) h'"
  shows "int_dict_objs h' (next_addr h) = int_dict_objs h0 a"
  using assms by (simp add: extends_def new_int_dict_def)

lemma copied_stance_dict:
  assumes "extends h0 h" and "a < next_addr h0"
    and "extends (snd (new_stance_dict (stance_dict_objs h a) h)) h'"
  shows "stance_dict_objs h' (next_addr h) = stance_dict_objs h0 a"
  using assms by (simp add: extends_def new_stance_dict_def)

lemma clone_steps:
  fixes self :: TheaterState and h0 :: heap
  assumes al: "allocated h0 self"
  shows "extends h0 (snd (clone self h0))"
    and "persistent (fst (clone self h0)) = persistent self"
    and "threat_zones (fst (clone self h0)) = threat_zones self"
    and "priority_cp (fst (clone self h0)) = priority_cp self"
    and "threatening_air_defenses (fst (clone self h0)) = threatening_air_defenses self"
    and "detecting_air_defenses (fst (clone self h0)) = detecting_air_defenses self"
    and "vulnerable_control_points (fst (clone self h0)) = vulnerable_control_points self"
    and "control_point_priority_queue (fst (clone self h0)) = control_point_priority_queue self"
    and "next_addr h0 \<le> barcaps_needed (fst (clone self h0))"
    and "int_dict_objs (snd (clone self h0)) (barcaps_needed (fst (clone self h0))) = int_dict_objs h0 (barcaps_needed self)"
    and "next_addr h0 \<le> active_front_lines (fst (clone self h0))"
    and "list_objs (snd (clone self h0)) (active_front_lines (fst (clone self h0))) = list_objs h0 (active_front_lines self)"
    and "next_addr h0 \<le> front_line_stances (fst (clone self h0))"
    and "stance_dict_objs (snd (clone self h0)) (front_line_stances (fst (clone self h0))) = stance_dict_objs h0 (front_line_stances self)"
    and "next_addr h0 \<le> vulnerable_front_lines (fst (clone self h0))"
    and "list_objs (snd (clone self h0)) (vulnerable_front_lines (fst (clone self h0))) = list_objs h0 (vulnerable_front_lines self)"
    and "next_addr h0 \<le> aewc_targets (fst (clone self h0))"
    and "list_objs (snd (clone self h0)) (aewc_targets (fst (clone self h0))) = list_objs h0 (aewc_targets self)"
    and "next_addr h0 \<le> refueling_targets (fst (clone self h0))"
    and "list_objs (snd (clone self h0)) (refueling_targets (fst (clone self h0))) = list_objs h0 (refueling_targets self)"
    and "next_addr h0 \<le> recovery_targets (fst (clone self h0))"
    and "int_dict_objs (snd (clone self h0)) (recovery_targets (fst (clone self h0))) = int_dict_objs h0 (recovery_targets self)"
    and "next_addr h0 \<le> enemy_air_defenses (fst (clone self h0))"
    and "list_objs (snd (clone self h0)) (enemy_air_defenses (fst (clone self h0))) = list_objs h0 (enemy_air_defenses self)"
    and "next_addr h0 \<le> enemy_convoys (fst (clone self h0))"
    and "list_objs (snd (clone self h0)) (enemy_convoys (fst (clone self h0))) = list_objs h0 (enemy_convoys self)"
    and "next_addr h0 \<le> enemy_shipping (fst (clone self h0))"
    and "list_objs (snd (clone self h0)) (enemy_shipping (fst (clone self h0))) = list_objs h0 (enemy_shipping self)"
    and "next_addr h0 \<le> enemy_ships (fst (clone self h0))"
    and "list_objs (snd (clone self h0)) (enemy_ships (fst (clone self h0))) = list_objs h0 (enemy_ships self)"
    and "next_addr h0 \<le> oca_targets (fst (clone self h0))"
    and "list_objs (snd (clone self h0)) (oca_targets (fst (clone self h0))) = list_objs h0 (oca_targets self)"
    and "next_addr h0 \<le> strike_targets (fst (clone self h0))"
    and "list_objs (snd (clone self h0)) (strike_targets (fst (clone self h0))) = list_objs h0 (strike_targets self)"
    and "next_addr h0 \<le> enemy_barcaps (fst (clone self h0))"
    and "list_objs (snd (clone self h0)) (enemy_barcaps (fst (clone self h0))) = list_objs h0 (enemy_barcaps self)"
    and "next_addr h0 \<le> enemy_battle_positions (fst (clone self h0))"
    and "map fst (bp_dict_objs (snd (clone self h0)) (enemy_battle_positions (fst (clone self h0)))) = map fst (bp_dict_objs h0 (enemy_battle_positions self))"
    and "\<forall>g \<in> snd ` set (bp_dict_objs (snd (clone self h0)) (enemy_battle_positions (fst (clone self h0)))). next_addr h0 \<le> g"
    and "map (\<lambda>(cp, g). (cp, bp_objs (snd (clone self h0)) g)) (bp_dict_objs (snd (clone self h0)) (enemy_battle_positions (fst (clone self h0)))) = map (\<lambda>(cp, g). (cp, bp_objs h0 g)) (bp_dict_objs h0 (enemy_battle_positions self))"
proof -
  have lt: "a < next_addr h0" if "a \<in> set (addresses h0 self)" for a
    using al that by (simp add: allocated_def)
  define h1 where "h1 = snd (new_int_dict (int_dict_objs h0 (barcaps_needed self)) h0)"
  define h2 where "h2 = snd (new_list (list_objs h1 (active_front_lines self)) h1)"
  define h3 where "h3 = snd (new_stance_dict (stance_dict_objs h2 (front_line_stances self)) h2)"
  define h4 where "h4 = snd (new_list (list_objs h3 (vulnerable_front_lines self)) h3)"
  define h5 where "h5 = snd (new_list (list_objs h4 (aewc_targets self)) h4)"
  define h6 where "h6 = snd (new_list (list_objs h5 (refueling_targets self)) h5)"
  define h7 where "h7 = snd (new_int_dict (int_dict_objs h6 (recovery_targets self)) h6)"
  define h8 where "h8 = snd (new_list (list_objs h7 (enemy_air_defenses self)) h7)"
  define h9 where "h9 = snd (new_list (list_objs h8 (enemy_convoys self)) h8)"
  define h10 where "h10 = snd (new_list (list_objs h9 (enemy_shipping self)) h9)"
  define h11 where "h11 = snd (new_list (list_objs h10 (enemy_ships self)) h10)"
  define h12 where "h12 = snd (replace_items (bp_dict_objs h11 (enemy_battle_positions self)) h11)"
  define items where "items = fst (replace_items (bp_dict_objs h11 (enemy_battle_positions self)) h11)"
  define h13 where "h13 = snd (new_bp_dict items h12)"
  define h14 where "h14 = snd (new_list (list_objs h13 (oca_targets self)) h13)"
  define h15 where "h15 = snd (new_list (list_objs h14 (strike_targets self)) h14)"
  define h16 where "h16 = snd (new_list (list_objs h15 (enemy_barcaps self)) h15)"
  have s0: "new_int_dict (int_dict_objs h0 (barcaps_needed self)) h0 = (next_addr h0, h1)"
    by (simp add: h1_def new_int_dict_def)
  have e0: "extends h0 h1" unfolding h1_def by (rule extends_new)
  have n0: "next_addr h1 = Suc (next_addr h0)"
    by (simp add: h1_def new_list_def new_int_dict_def new_stance_dict_def new_bp_dict_def)
  have s1: "new_list (list_objs h1 (active_front_lines self)) h1 = (next_addr h1, h2)"
    by (simp add: h2_def new_list_def)
  have e1: "extends h1 h2" unfolding h2_def by (rule extends_new)
  have n1: "next_addr h2 = Suc (next_addr h1)"
    by (simp add: h2_def new_list_def new_int_dict_def new_stance_dict_def new_bp_dict_def)
  have s2: "new_stance_dict (stance_dict_objs h2 (front_line_stances self)) h2 = (next_addr h2, h3)"
    by (simp add: h3_def new_stance_dict_def)
  have e2: "extends h2 h3" unfolding h3_def by (rule extends_new)
  have n2: "next_addr h3 = Suc (next_addr h2)"
    by (simp add: h3_def new_list_def new_int_dict_def new_stance_dict_def new_bp_dict_def)
  have s3: "new_list (list_objs h3 (vulnerable_front_lines self)) h3 = (next_addr h3, h4)"
    by (simp add: h4_def new_list_def)
  have e3: "extends h3 h4" unfolding h4_def by (rule extends_new)
  have n3: "next_addr h4 = Suc (next_addr h3)"
    by (simp add: h4_def new_list_def new_int_dict_def new_stance_dict_def new_bp_dict_def)
  have s4: "new_list (list_objs h4 (aewc_targets self)) h4 = (next_addr h4, h5)"
    by (simp add: h5_def new_list_def)
  have e4: "extends h4 h5" unfolding h5_def by (rule extends_new)
  have n4: "next_addr h5 = Suc (next_addr h4)"
    by (simp add: h5_def new_list_def new_int_dict_def new_stance_dict_def new_bp_dict_def)
  have s5: "new_list (list_objs h5 (refueling_targets self)) h5 = (next_addr h5, h6)"
    by (simp add: h6_def new_list_def)
  have e5: "extends h5 h6" unfolding h6_def by (rule extends_new)
  have n5: "next_addr h6 = Suc (next_addr h5)"
    by (simp add: h6_def new_list_def new_int_dict_def new_stance_dict_def new_bp_dict_def)
  have s6: "new_int_dict (int_dict_objs h6 (recovery_targets self)) h6 = (next_addr h6, h7)"
    by (simp add: h7_def new_int_dict_def)
  have e6: "extends h6 h7" unfolding h7_def by (rule extends_new)
  have n6: "next_addr h7 = Suc (next_addr h6)"
    by (simp add: h7_def new_list_def new_int_dict_def new_stance_dict_def new_bp_dict_def)
  have s7: "new_list (list_objs h7 (enemy_air_defenses self)) h7 = (next_addr h7, h8)"
    by (simp add: h8_def new_list_def)
  have e7: "extends h7 h8" unfolding h8_def by (rule extends_new)
  have n7: "next_addr h8 = Suc (next_addr h7)"
    by (simp add: h8_def new_list_def new_int_dict_def new_stance_dict_def new_bp_dict_def)
  have s8: "new_list (list_objs h8 (enemy_convoys self)) h8 = (next_addr h8, h9)"
    by (simp add: h9_def new_list_def)
  have e8: "extends h8 h9" unfolding h9_def by (rule extends_new)
  have n8: "next_addr h9 = Suc (next_addr h8)"
    by (simp add: h9_def new_list_def new_int_dict_def new_stance_dict_def new_bp_dict_def)
  have s9: "new_list (list_objs h9 (enemy_shipping self)) h9 = (next_addr h9, h10)"
    by (simp add: h10_def new_list_def)
  have e9: "extends h9 h10" unfolding h10_def by (rule extends_new)
  have n9: "next_addr h10 = Suc (next_addr h9)"
    by (simp add: h10_def new_list_def new_int_dict_def new_stance_dict_def new_bp_dict_def)
  have s10: "new_list (list_objs h10 (enemy_ships self)) h10 = (next_addr h10, h11)"
    by (simp add: h11_def new_list_def)
  have e10: "extends h10 h11" unfolding h11_def by (rule extends_new)
  have n10: "next_addr h11 = Suc (next_addr h10)"
    by (simp add: h11_def new_list_def new_int_dict_def new_stance_dict_def new_bp_dict_def)
  have s11: "replace_items (bp_dict_objs h11 (enemy_battle_positions self)) h11 = (items, h12)"
    by (simp add: h12_def items_def)
  have e11: "extends h11 h12" unfolding h12_def by (rule extends_replace_items)
  have n11: "next_addr h12 = next_addr h11 + length (bp_dict_objs h11 (enemy_battle_positions self))"
    by (simp add: h12_def replace_items_frame)
  have s12: "new_bp_dict items h12 = (next_addr h12, h13)"
    by (simp add: h13_def new_bp_dict_def)
  have e12: "extends h12 h13" unfolding h13_def by (rule extends_new)
  have n12: "next_addr h13 = Suc (next_addr h12)"
    by (simp add: h13_def new_list_def new_int_dict_def new_stance_dict_def new_bp_dict_def)
  have s13: "new_list (list_objs h13 (oca_targets self)) h13 = (next_addr h13, h14)"
    by (simp add: h14_def new_list_def)
  have e13: "extends h13 h14" unfolding h14_def by (rule extends_new)
  have n13: "next_addr h14 = Suc (next_addr h13)"
    by (simp add: h14_def new_list_def new_int_dict_def new_stance_dict_def new_bp_dict_def)
  have s14: "new_list (list_objs h14 (strike_targets self)) h14 = (next_addr h14, h15)"
    by (simp add: h15_def new_list_def)
  have e14: "extends h14 h15" unfolding h15_def by (rule extends_new)
  have n14: "next_addr h15 = Suc (next_addr h14)"
    by (simp add: h15_def new_list_def new_int_dict_def new_stance_dict_def new_bp_dict_def)
  have s15: "new_list (list_objs h15 (enemy_barcaps self)) h15 = (next_addr h15, h16)"
    by (simp add: h16_def new_list_def)
  have e15: "extends h15 h16" unfolding h16_def by (rule extends_new)
  have n15: "next_addr h16 = Suc (next_addr h15)"
    by (simp add: h16_def new_list_def new_int_dict_def new_stance_dict_def new_bp_dict_def)
  have f0: "extends h0 h0" by (rule extends_refl)
  have f1: "extends h0 h1" by (rule extends_trans [OF f0 e0])
  have f2: "extends h0 h2" by (rule extends_trans [OF f1 e1])
  have f3: "extends h0 h3" by (rule extends_trans [OF f2 e2])
  have f4: "extends h0 h4" by (rule extends_trans [OF f3 e3])
  have f5: "extends h0 h5" by (rule extends_trans [OF f4 e4])
  have f6: "extends h0 h6" by (rule extends_trans [OF f5 e5])
  have f7: "extends h0 h7" by (rule extends_trans [OF f6 e6])
  have f8: "extends h0 h8" by (rule extends_trans [OF f7 e7])
  have f9: "extends h0 h9" by (rule extends_trans [OF f8 e8])
  have f10: "extends h0 h10" by (rule extends_trans [OF f9 e9])
  have f11: "extends h0 h11" by (rule extends_trans [OF f10 e10])
  have f12: "extends h0 h12" by (rule extends_trans [OF f11 e11])
  have f13: "extends h0 h13" by (rule extends_trans [OF f12 e12])
  have f14: "extends h0 h14" by (rule extends_trans [OF f13 e13])
  have f15: "extends h0 h15" by (rule extends_trans [OF f14 e14])
  have f16: "extends h0 h16" by (rule extends_trans [OF f15 e15])
  have t16: "extends h16 h16" by (rule extends_refl)
  have t15: "extends h15 h16" by (rule extends_trans [OF e15 t16])
  have t14: "extends h14 h16" by (rule extends_trans [OF e14 t15])
  have t13: "extends h13 h16" by (rule extends_trans [OF e13 t14])
  have t12: "extends h12 h16" by (rule extends_trans [OF e12 t13])
  have t11: "extends h11 h16" by (rule extends_trans [OF e11 t12])
  have t10: "extends h10 h16" by (rule extends_trans [OF e10 t11])
  have t9: "extends h9 h16" by (rule extends_trans [OF e9 t10])
  have t8: "extends h8 h16" by (rule extends_trans [OF e8 t9])
  have t7: "extends h7 h16" by (rule extends_trans [OF e7 t8])
  have t6: "extends h6 h16" by (rule extends_trans [OF e6 t7])
  have t5: "extends h5 h16" by (rule extends_trans [OF e5 t6])
  have t4: "extends h4 h16" by (rule extends_trans [OF e4 t5])
  have t3: "extends h3 h16" by (rule extends_trans [OF e3 t4])
  have t2: "extends h2 h16" by (rule extends_trans [OF e2 t3])
  have t1: "extends h1 h16" by (rule extends_trans [OF e1 t2])
  have t0: "extends h0 h16" by (rule extends_trans [OF e0 t1])
  have le: "next_addr h0 \<le> next_addr h1" "next_addr h1 \<le> next_addr h2" "next_addr h2 \<le> next_addr h3" "next_addr h3 \<le> next_addr h4" "next_addr h4 \<le> next_addr h5" "next_addr h5 \<le> next_addr h6" "next_addr h6 \<le> next_addr h7" "next_addr h7 \<le> next_addr h8" "next_addr h8 \<le> next_addr h9" "next_addr h9 \<le> next_addr h10" "next_addr h10 \<le> next_addr h11" "next_addr h11 \<le> next_addr h12" "next_addr h12 \<le> next_addr h13" "next_addr h13 \<le> next_addr h14" "next_addr h14 \<le> next_addr h15" "next_addr h15 \<le> next_addr h16"
    using n0 n1 n2 n3 n4 n5 n6 n7 n8 n9 n10 n11 n12 n13 n14 n15 by simp_all
  have cl: "clone self h0 =
     (\<lparr>persistent = persistent self,
       barcaps_needed = next_addr h0,
       active_front_lines = next_addr h1,
       front_line_stances = next_addr h2,
       vulnerable_front_lines = next_addr h3,
       aewc_targets = next_addr h4,
       refueling_targets = next_addr h5,
       recovery_targets = next_addr h6,
       enemy_air_defenses = next_addr h7,
       threatening_air_defenses = threatening_air_defenses self,
       detecting_air_defenses = detecting_air_defenses self,
       enemy_convoys = next_addr h8,
       enemy_shipping = next_addr h9,
       enemy_ships = next_addr h10,
       enemy_battle_positions = next_addr h12,
       oca_targets = next_addr h13,
       strike_targets = next_addr h14,
       enemy_barcaps = next_addr h15,
       threat_zones = threat_zones self,
       vulnerable_control_points = vulnerable_control_points self,
       control_point_priority_queue = control_point_priority_queue self,
       priority_cp = priority_cp self\<rparr>, h16)"
    by (simp add: clone_def Let_def s0 s1 s2 s3 s4 s5 s6 s7 s8 s9 s10 s11 s12 s13 s14 s15)
  have mem: "barcaps_needed self \<in> set (addresses h0 self)" "active_front_lines self \<in> set (addresses h0 self)" "front_line_stances self \<in> set (addresses h0 self)" "vulnerable_front_lines self \<in> set (addresses h0 self)" "aewc_targets self \<in> set (addresses h0 self)" "refueling_targets self \<in> set (addresses h0 self)" "recovery_targets self \<in> set (addresses h0 self)" "enemy_air_defenses self \<in> set (addresses h0 self)" "enemy_convoys self \<in> set (addresses h0 self)" "enemy_shipping self \<in> set (addresses h0 self)" "enemy_ships self \<in> set (addresses h0 self)" "oca_targets self \<in> set (addresses h0 self)" "strike_targets self \<in> set (addresses h0 self)" "enemy_barcaps self \<in> set (addresses h0 self)" "enemy_battle_positions self \<in> set (addresses h0 self)"
    by (simp_all add: addresses_def list_fields_def)
  have c0: "int_dict_objs h16 (next_addr h0) = int_dict_objs h0 (barcaps_needed self)"
    by (rule copied_int_dict [OF f0 lt t1 [unfolded h1_def]]) (simp add: mem)
  have c1: "list_objs h16 (next_addr h1) = list_objs h0 (active_front_lines self)"
    by (rule copied_list [OF f1 lt t2 [unfolded h2_def]]) (simp add: mem)
  have c2: "stance_dict_objs h16 (next_addr h2) = stance_dict_objs h0 (front_line_stances self)"
    by (rule copied_stance_dict [OF f2 lt t3 [unfolded h3_def]]) (simp add: mem)
  have c3: "list_objs h16 (next_addr h3) = list_objs h0 (vulnerable_front_lines self)"
    by (rule copied_list [OF f3 lt t4 [unfolded h4_def]]) (simp add: mem)
  have c4: "list_objs h16 (next_addr h4) = list_objs h0 (aewc_targets self)"
    by (rule copied_list [OF f4 lt t5 [unfolded h5_def]]) (simp add: mem)
  have c5: "list_objs h16 (next_addr h5) = list_objs h0 (refueling_targets self)"
    by (rule copied_list [OF f5 lt t6 [unfolded h6_def]]) (simp add: mem)
  have c6: "int_dict_objs h16 (next_addr h6) = int_dict_objs h0 (recovery_targets self)"
    by (rule copied_int_dict [OF f6 lt t7 [unfolded h7_def]]) (simp add: mem)
  have c7: "list_objs h16 (next_addr h7) = list_objs h0 (enemy_air_defenses self)"
    by (rule copied_list [OF f7 lt t8 [unfolded h8_def]]) (simp add: mem)
  have c8: "list_objs h16 (next_addr h8) = list_objs h0 (enemy_convoys self)"
    by (rule copied_list [OF f8 lt t9 [unfolded h9_def]]) (simp add: mem)
  have c9: "list_objs h16 (next_addr h9) = list_objs h0 (enemy_shipping self)"
    by (rule copied_list [OF f9 lt t10 [unfolded h10_def]]) (simp add: mem)
  have c10: "list_objs h16 (next_addr h10) = list_objs h0 (enemy_ships self)"
    by (rule copied_list [OF f10 lt t11 [unfolded h11_def]]) (simp add: mem)
  have c13: "list_objs h16 (next_addr h13) = list_objs h0 (oca_targets self)"
    by (rule copied_list [OF f13 lt t14 [unfolded h14_def]]) (simp add: mem)
  have c14: "list_objs h16 (next_addr h14) = list_objs h0 (strike_targets self)"
    by (rule copied_list [OF f14 lt t15 [unfolded h15_def]]) (simp add: mem)
  have c15: "list_objs h16 (next_addr h15) = list_objs h0 (enemy_barcaps self)"
    using f15 lt [of "enemy_barcaps self"] by (simp add: h16_def new_list_def extends_def mem)
  have ar: "next_addr h0 \<le> next_addr h0" "next_addr h0 < next_addr h16" "next_addr h0 \<le> next_addr h1" "next_addr h1 < next_addr h16" "next_addr h0 \<le> next_addr h2" "next_addr h2 < next_addr h16" "next_addr h0 \<le> next_addr h3" "next_addr h3 < next_addr h16" "next_addr h0 \<le> next_addr h4" "next_addr h4 < next_addr h16" "next_addr h0 \<le> next_addr h5" "next_addr h5 < next_addr h16" "next_addr h0 \<le> next_addr h6" "next_addr h6 < next_addr h16" "next_addr h0 \<le> next_addr h7" "next_addr h7 < next_addr h16" "next_addr h0 \<le> next_addr h8" "next_addr h8 < next_addr h16" "next_addr h0 \<le> next_addr h9" "next_addr h9 < next_addr h16" "next_addr h0 \<le> next_addr h10" "next_addr h10 < next_addr h16" "next_addr h0 \<le> next_addr h11" "next_addr h11 < next_addr h16" "next_addr h0 \<le> next_addr h12" "next_addr h12 < next_addr h16" "next_addr h0 \<le> next_addr h13" "next_addr h13 < next_addr h16" "next_addr h0 \<le> next_addr h14" "next_addr h14 < next_addr h16" "next_addr h0 \<le> next_addr h15" "next_addr h15 < next_addr h16"
    using n0 n1 n2 n3 n4 n5 n6 n7 n8 n9 n10 n11 n12 n13 n14 n15 by simp_all
  have ebp: "bp_dict_objs h11 (enemy_battle_positions self) = bp_dict_objs h0 (enemy_battle_positions self)"
    using f11 lt [OF mem(15)] by (simp add: extends_def)
  have i1: "bp_dict_objs h16 (next_addr h12) = items"
  proof -
    have "bp_dict_objs h13 (next_addr h12) = items" by (simp add: h13_def new_bp_dict_def)
    moreover have "next_addr h12 < next_addr h13" by (simp add: n12)
    ultimately show ?thesis using t13 by (simp add: extends_def)
  qed
  have i2: "map fst items = map fst (bp_dict_objs h0 (enemy_battle_positions self))"
    by (simp add: items_def replace_items_keys ebp)
  have i3: "map snd items = [next_addr h11 ..< next_addr h12]"
    by (simp add: items_def replace_items_new n11)
  have i4: "\<forall>g \<in> snd ` set items. next_addr h0 \<le> g \<and> g < next_addr h16"
  proof
    fix g assume "g \<in> snd ` set items"
    then have "g \<in> set (map snd items)" by simp
    then have "next_addr h11 \<le> g \<and> g < next_addr h12" unfolding i3 by simp
    then show "next_addr h0 \<le> g \<and> g < next_addr h16" using ar(23) ar(26) by linarith
  qed
  have old: "\<forall>g \<in> snd ` set (bp_dict_objs h0 (enemy_battle_positions self)). g < next_addr h0"
    using al by (auto simp: allocated_def addresses_def)
  have i5: "map (\<lambda>(cp, g). (cp, bp_objs h16 g)) items =
      map (\<lambda>(cp, g). (cp, bp_objs h0 g)) (bp_dict_objs h0 (enemy_battle_positions self))"
  proof -
    have "\<forall>g \<in> snd ` set (bp_dict_objs h11 (enemy_battle_positions self)). g < next_addr h11"
      using old ar(23) unfolding ebp by fastforce
    from replace_items_values [OF this]
    have "map (\<lambda>(cp, g). (cp, bp_objs h12 g)) items =
      map (\<lambda>(cp, g). (cp, bp_objs h11 g)) (bp_dict_objs h0 (enemy_battle_positions self))"
      by (simp add: items_def h12_def ebp)
    moreover have "map (\<lambda>(cp, g). (cp, bp_objs h16 g)) items = map (\<lambda>(cp, g). (cp, bp_objs h12 g)) items"
    proof (rule map_cong [OF refl])
      fix x assume "x \<in> set items"
      then have "snd x \<in> set (map snd items)" by simp
      then have "snd x < next_addr h12" unfolding i3 by simp
      with t12 have "bp_objs h16 (snd x) = bp_objs h12 (snd x)" by (simp add: extends_def)
      then show "(case x of (cp, g) \<Rightarrow> (cp, bp_objs h16 g)) = (case x of (cp, g) \<Rightarrow> (cp, bp_objs h12 g))"
        by (simp add: split_def)
    qed
    moreover have "map (\<lambda>(cp, g). (cp, bp_objs h11 g)) (bp_dict_objs h0 (enemy_battle_positions self))
       = map (\<lambda>(cp, g). (cp, bp_objs h0 g)) (bp_dict_objs h0 (enemy_battle_positions self))"
    proof (rule map_cong [OF refl])
      fix x assume "x \<in> set (bp_dict_objs h0 (enemy_battle_positions self))"
      with old have "snd x < next_addr h0" by auto
      with f11 have "bp_objs h11 (snd x) = bp_objs h0 (snd x)" by (simp add: extends_def)
      then show "(case x of (cp, g) \<Rightarrow> (cp, bp_objs h11 g)) = (case x of (cp, g) \<Rightarrow> (cp, bp_objs h0 g))"
        by (simp add: split_def)
    qed
    ultimately show ?thesis by simp
  qed
  note C = cl [THEN arg_cong [where f = fst], simplified]
  note H = cl [THEN arg_cong [where f = snd], simplified]
  show "extends h0 (snd (clone self h0))" unfolding H by (rule f16)
  show "persistent (fst (clone self h0)) = persistent self"
    unfolding C H by (simp add: ar c0 c1 c2 c3 c4 c5 c6 c7 c8 c9 c10 c13 c14 c15 i1 i2 i5)
  show "threat_zones (fst (clone self h0)) = threat_zones self"
    unfolding C H by (simp add: ar c0 c1 c2 c3 c4 c5 c6 c7 c8 c9 c10 c13 c14 c15 i1 i2 i5)
  show "priority_cp (fst (clone self h0)) = priority_cp self"
    unfolding C H by (simp add: ar c0 c1 c2 c3 c4 c5 c6 c7 c8 c9 c10 c13 c14 c15 i1 i2 i5)
  show "threatening_air_defenses (fst (clone self h0)) = threatening_air_defenses self"
    unfolding C H by (simp add: ar c0 c1 c2 c3 c4 c5 c6 c7 c8 c9 c10 c13 c14 c15 i1 i2 i5)
  show "detecting_air_defenses (fst (clone self h0)) = detecting_air_defenses self"
    unfolding C H by (simp add: ar c0 c1 c2 c3 c4 c5 c6 c7 c8 c9 c10 c13 c14 c15 i1 i2 i5)
  show "vulnerable_control_points (fst (clone self h0)) = vulnerable_control_points self"
    unfolding C H by (simp add: ar c0 c1 c2 c3 c4 c5 c6 c7 c8 c9 c10 c13 c14 c15 i1 i2 i5)
  show "control_point_priority_queue (fst (clone self h0)) = control_point_priority_queue self"
    unfolding C H by (simp add: ar c0 c1 c2 c3 c4 c5 c6 c7 c8 c9 c10 c13 c14 c15 i1 i2 i5)
  show "next_addr h0 \<le> barcaps_needed (fst (clone self h0))"
    unfolding C H by (simp add: ar c0 c1 c2 c3 c4 c5 c6 c7 c8 c9 c10 c13 c14 c15 i1 i2 i5)
  show "int_dict_objs (snd (clone self h0)) (barcaps_needed (fst (clone self h0))) = int_dict_objs h0 (barcaps_needed self)"
    unfolding C H by (simp add: ar c0 c1 c2 c3 c4 c5 c6 c7 c8 c9 c10 c13 c14 c15 i1 i2 i5)
  show "next_addr h0 \<le> active_front_lines (fst (clone self h0))"
    unfolding C H by (simp add: ar c0 c1 c2 c3 c4 c5 c6 c7 c8 c9 c10 c13 c14 c15 i1 i2 i5)
  show "list_objs (snd (clone self h0)) (active_front_lines (fst (clone self h0))) = list_objs h0 (active_front_lines self)"
    unfolding C H by (simp add: ar c0 c1 c2 c3 c4 c5 c6 c7 c8 c9 c10 c13 c14 c15 i1 i2 i5)
  show "next_addr h0 \<le> front_line_stances (fst (clone self h0))"
    unfolding C H by (simp add: ar c0 c1 c2 c3 c4 c5 c6 c7 c8 c9 c10 c13 c14 c15 i1 i2 i5)
  show "stance_dict_objs (snd (clone self h0)) (front_line_stances (fst (clone self h0))) = stance_dict_objs h0 (front_line_stances self)"
    unfolding C H by (simp add: ar c0 c1 c2 c3 c4 c5 c6 c7 c8 c9 c10 c13 c14 c15 i1 i2 i5)
  show "next_addr h0 \<le> vulnerable_front_lines (fst (clone self h0))"
    unfolding C H by (simp add: ar c0 c1 c2 c3 c4 c5 c6 c7 c8 c9 c10 c13 c14 c15 i1 i2 i5)
  show "list_objs (snd (clone self h0)) (vulnerable_front_lines (fst (clone self h0))) = list_objs h0 (vulnerable_front_lines self)"
    unfolding C H by (simp add: ar c0 c1 c2 c3 c4 c5 c6 c7 c8 c9 c10 c13 c14 c15 i1 i2 i5)
  show "next_addr h0 \<le> aewc_targets (fst (clone self h0))"
    unfolding C H by (simp add: ar c0 c1 c2 c3 c4 c5 c6 c7 c8 c9 c10 c13 c14 c15 i1 i2 i5)
  show "list_objs (snd (clone self h0)) (aewc_targets (fst (clone self h0))) = list_objs h0 (aewc_targets self)"
    unfolding C H by (simp add: ar c0 c1 c2 c3 c4 c5 c6 c7 c8 c9 c10 c13 c14 c15 i1 i2 i5)
  show "next_addr h0 \<le> refueling_targets (fst (clone self h0))"
    unfolding C H by (simp add: ar c0 c1 c2 c3 c4 c5 c6 c7 c8 c9 c10 c13 c14 c15 i1 i2 i5)
  show "list_objs (snd (clone self h0)) (refueling_targets (fst (clone self h0))) = list_objs h0 (refueling_targets self)"
    unfolding C H by (simp add: ar c0 c1 c2 c3 c4 c5 c6 c7 c8 c9 c10 c13 c14 c15 i1 i2 i5)
  show "next_addr h0 \<le> recovery_targets (fst (clone self h0))"
    unfolding C H by (simp add: ar c0 c1 c2 c3 c4 c5 c6 c7 c8 c9 c10 c13 c14 c15 i1 i2 i5)
  show "int_dict_objs (snd (clone self h0)) (recovery_targets (fst (clone self h0))) = int_dict_objs h0 (recovery_targets self)"
    unfolding C H by (simp add: ar c0 c1 c2 c3 c4 c5 c6 c7 c8 c9 c10 c13 c14 c15 i1 i2 i5)
  show "next_addr h0 \<le> enemy_air_defenses (fst (clone self h0))"
    unfolding C H by (simp add: ar c0 c1 c2 c3 c4 c5 c6 c7 c8 c9 c10 c13 c14 c15 i1 i2 i5)
  show "list_objs (snd (clone self h0)) (enemy_air_defenses (fst (clone self h0))) = list_objs h0 (enemy_air_defenses self)"
    unfolding C H by (simp add: ar c0 c1 c2 c3 c4 c5 c6 c7 c8 c9 c10 c13 c14 c15 i1 i2 i5)
  show "next_addr h0 \<le> enemy_convoys (fst (clone self h0))"
    unfolding C H by (simp add: ar c0 c1 c2 c3 c4 c5 c6 c7 c8 c9 c10 c13 c14 c15 i1 i2 i5)
  show "list_objs (snd (clone self h0)) (enemy_convoys (fst (clone self h0))) = list_objs h0 (enemy_convoys self)"
    unfolding C H by (simp add: ar c0 c1 c2 c3 c4 c5 c6 c7 c8 c9 c10 c13 c14 c15 i1 i2 i5)
  show "next_addr h0 \<le> enemy_shipping (fst (clone self h0))"
    unfolding C H by (simp add: ar c0 c1 c2 c3 c4 c5 c6 c7 c8 c9 c10 c13 c14 c15 i1 i2 i5)
  show "list_objs (snd (clone self h0)) (enemy_shipping (fst (clone self h0))) = list_objs h0 (enemy_shipping self)"
    unfolding C H by (simp add: ar c0 c1 c2 c3 c4 c5 c6 c7 c8 c9 c10 c13 c14 c15 i1 i2 i5)
  show "next_addr h0 \<le> enemy_ships (fst (clone self h0))"
    unfolding C H by (simp add: ar c0 c1 c2 c3 c4 c5 c6 c7 c8 c9 c10 c13 c14 c15 i1 i2 i5)
  show "list_objs (snd (clone self h0)) (enemy_ships (fst (clone self h0))) = list_objs h0 (enemy_ships self)"
    unfolding C H by (simp add: ar c0 c1 c2 c3 c4 c5 c6 c7 c8 c9 c10 c13 c14 c15 i1 i2 i5)
  show "next_addr h0 \<le> oca_targets (fst (clone self h0))"
    unfolding C H by (simp add: ar c0 c1 c2 c3 c4 c5 c6 c7 c8 c9 c10 c13 c14 c15 i1 i2 i5)
  show "list_objs (snd (clone self h0)) (oca_targets (fst (clone self h0))) = list_objs h0 (oca_targets self)"
    unfolding C H by (simp add: ar c0 c1 c2 c3 c4 c5 c6 c7 c8 c9 c10 c13 c14 c15 i1 i2 i5)
  show "next_addr h0 \<le> strike_targets (fst (clone self h0))"
    unfolding C H by (simp add: ar c0 c1 c2 c3 c4 c5 c6 c7 c8 c9 c10 c13 c14 c15 i1 i2 i5)
  show "list_objs (snd (clone self h0)) (strike_targets (fst (clone self h0))) = list_objs h0 (strike_targets self)"
    unfolding C H by (simp add: ar c0 c1 c2 c3 c4 c5 c6 c7 c8 c9 c10 c13 c14 c15 i1 i2 i5)
  show "next_addr h0 \<le> enemy_barcaps (fst (clone self h0))"
    unfolding C H by (simp add: ar c0 c1 c2 c3 c4 c5 c6 c7 c8 c9 c10 c13 c14 c15 i1 i2 i5)
  show "list_objs (snd (clone self h0)) (enemy_barcaps (fst (clone self h0))) = list_objs h0 (enemy_barcaps self)"
    unfolding C H by (simp add: ar c0 c1 c2 c3 c4 c5 c6 c7 c8 c9 c10 c13 c14 c15 i1 i2 i5)
  show "next_addr h0 \<le> enemy_battle_positions (fst (clone self h0))"
    unfolding C H by (simp add: ar c0 c1 c2 c3 c4 c5 c6 c7 c8 c9 c10 c13 c14 c15 i1 i2 i5)
  show "map fst (bp_dict_objs (snd (clone self h0)) (enemy_battle_positions (fst (clone self h0)))) = map fst (bp_dict_objs h0 (enemy_battle_positions self))"
    unfolding C H by (simp add: ar c0 c1 c2 c3 c4 c5 c6 c7 c8 c9 c10 c13 c14 c15 i1 i2 i5)
  show "\<forall>g \<in> snd ` set (bp_dict_objs (snd (clone self h0)) (enemy_battle_positions (fst (clone self h0)))). next_addr h0 \<le> g"
    unfolding C H using i4 by (simp add: i1)
  show "map (\<lambda>(cp, g). (cp, bp_objs (snd (clone self h0)) g)) (bp_dict_objs (snd (clone self h0)) (enemy_battle_positions (fst (clone self h0)))) = map (\<lambda>(cp, g). (cp, bp_objs h0 g)) (bp_dict_objs h0 (enemy_battle_positions self))"
    unfolding C H by (simp add: ar c0 c1 c2 c3 c4 c5 c6 c7 c8 c9 c10 c13 c14 c15 i1 i2 i5)
qed

lemma contents_frame:
  assumes "allocated h s" and "extends h h'"
  shows "contents h' s = contents h s"
proof -
  have lt: "a < next_addr h" if "a \<in> set (addresses h s)" for a
    using assms(1) that by (simp add: allocated_def)
  have eq: "list_objs h' a = list_objs h a" "int_dict_objs h' a = int_dict_objs h a"
    "stance_dict_objs h' a = stance_dict_objs h a" "bp_dict_objs h' a = bp_dict_objs h a"
    "bp_objs h' a = bp_objs h a"
    if "a \<in> set (addresses h s)" for a
    using assms(2) lt [OF that] by (simp_all add: extends_def)
  have l: "map (list_objs h') (list_fields s) = map (list_objs h) (list_fields s)"
    by (rule map_cong [OF refl]) (simp add: eq addresses_def)
  have d: "int_dict_objs h' (barcaps_needed s) = int_dict_objs h (barcaps_needed s)"
    "int_dict_objs h' (recovery_targets s) = int_dict_objs h (recovery_targets s)"
    "stance_dict_objs h' (front_line_stances s) = stance_dict_objs h (front_line_stances s)"
    "bp_dict_objs h' (enemy_battle_positions s) = bp_dict_objs h (enemy_battle_positions s)"
    by (simp_all add: eq addresses_def)
  have b: "map (\<lambda>(cp, g). (cp, bp_objs h' g)) (bp_dict_objs h (enemy_battle_positions s)) =
      map (\<lambda>(cp, g). (cp, bp_objs h g)) (bp_dict_objs h (enemy_battle_positions s))"
  proof (rule map_cong [OF refl])
    fix x assume "x \<in> set (bp_dict_objs h (enemy_battle_positions s))"
    then have "snd x \<in> set (addresses h s)" by (simp add: addresses_def)
    then show "(case x of (cp, g) \<Rightarrow> (cp, bp_objs h' g)) = (case x of (cp, g) \<Rightarrow> (cp, bp_objs h g))"
      by (simp add: split_def eq)
  qed
  show ?thesis by (simp add: contents_def l d b)
qed

lemma extends_update:
  assumes "extends h h'" and "next_addr h \<le> a"
  shows "extends h (h'\<lparr>list_objs := (list_objs h')(a := xs)\<rparr>)"
    and "extends h (h'\<lparr>int_dict_objs := (int_dict_objs h')(a := d)\<rparr>)"
    and "extends h (h'\<lparr>stance_dict_objs := (stance_dict_objs h')(a := sd)\<rparr>)"
    and "extends h (h'\<lparr>bp_dict_objs := (bp_dict_objs h')(a := bd)\<rparr>)"
    and "extends h (h'\<lparr>bp_objs := (bp_objs h')(a := g)\<rparr>)"
  using assms by (simp_all add: extends_def)

text \<open>
  C3. \<open>TheaterState.clone\<close>, for a state whose collections are objects of the heap: the
  clone holds what the original holds, field by field; the original still holds what it
  held; and storing any new value in a collection that \<open>clone\<close> copied (the eleven copied
  lists, among them enemy_air_defenses, enemy_ships, strike_targets, oca_targets and
  active_front_lines; the dictionaries barcaps_needed, recovery_targets, front_line_stances
  and enemy_battle_positions; the replaced \<open>BattlePositions\<close>) through the clone leaves
  everything the original holds unchanged. The fields the source calls persistent
  (threatening_air_defenses, detecting_air_defenses, vulnerable_control_points,
  control_point_priority_queue) are the very objects of the original.
\<close>

theorem clone_shallow_copy:
  fixes self :: TheaterState and h :: heap
  defines "c \<equiv> fst (clone self h)"
  defines "h' \<equiv> snd (clone self h)"
  assumes al: "allocated h self"
  shows
  "contents h' c = contents h self \<and>
   contents h' self = contents h self \<and>
   threatening_air_defenses c = threatening_air_defenses self \<and>
   detecting_air_defenses c = detecting_air_defenses self \<and>
   vulnerable_control_points c = vulnerable_control_points self \<and>
   control_point_priority_queue c = control_point_priority_queue self \<and>
   (\<forall>a \<in> set (copied_lists c). \<forall>xs.
      contents (h'\<lparr>list_objs := (list_objs h')(a := xs)\<rparr>) self = contents h self) \<and>
   (\<forall>a \<in> {barcaps_needed c, recovery_targets c}. \<forall>d.
      contents (h'\<lparr>int_dict_objs := (int_dict_objs h')(a := d)\<rparr>) self = contents h self) \<and>
   (\<forall>d. contents (h'\<lparr>stance_dict_objs := (stance_dict_objs h')(front_line_stances c := d)\<rparr>) self
          = contents h self) \<and>
   (\<forall>d. contents (h'\<lparr>bp_dict_objs := (bp_dict_objs h')(enemy_battle_positions c := d)\<rparr>) self
          = contents h self) \<and>
   (\<forall>a \<in> snd ` set (bp_dict_objs h' (enemy_battle_positions c)). \<forall>g.
      contents (h'\<lparr>bp_objs := (bp_objs h')(a := g)\<rparr>) self = contents h self)"
proof -
  note cs = clone_steps [OF al, folded c_def h'_def]
  have ex: "extends h h'" by (rule cs(1))
  have sl: "list_objs h' (threatening_air_defenses self) = list_objs h (threatening_air_defenses self)"
    "list_objs h' (detecting_air_defenses self) = list_objs h (detecting_air_defenses self)"
    "list_objs h' (vulnerable_control_points self) = list_objs h (vulnerable_control_points self)"
    "list_objs h' (control_point_priority_queue self) = list_objs h (control_point_priority_queue self)"
    using ex al by (simp_all add: extends_def allocated_def addresses_def list_fields_def)
  have A1: "map (list_objs h') (list_fields c) = map (list_objs h) (list_fields self)"
    unfolding list_fields_def by (simp add: cs sl)
  have A2: "map (int_dict_objs h') [barcaps_needed c, recovery_targets c] =
      map (int_dict_objs h) [barcaps_needed self, recovery_targets self]"
    by (simp add: cs)
  have A3: "stance_dict_objs h' (front_line_stances c) = stance_dict_objs h (front_line_stances self)"
    by (simp add: cs)
  have A: "contents h' c = contents h self"
    unfolding contents_def A1 A2 A3 by (simp add: cs)
  have B: "contents h' self = contents h self" by (rule contents_frame [OF al ex])
  have C: "\<forall>a \<in> set (copied_lists c). \<forall>xs.
      contents (h'\<lparr>list_objs := (list_objs h')(a := xs)\<rparr>) self = contents h self"
  proof (intro ballI allI)
    fix a xs assume "a \<in> set (copied_lists c)"
    then have "next_addr h \<le> a"
      unfolding copied_lists_def using cs by auto
    from contents_frame [OF al extends_update(1) [OF ex this]]
    show "contents (h'\<lparr>list_objs := (list_objs h')(a := xs)\<rparr>) self = contents h self" .
  qed
  have D: "\<forall>a \<in> {barcaps_needed c, recovery_targets c}. \<forall>d.
      contents (h'\<lparr>int_dict_objs := (int_dict_objs h')(a := d)\<rparr>) self = contents h self"
  proof (intro ballI allI)
    fix a d assume "a \<in> {barcaps_needed c, recovery_targets c}"
    then have "next_addr h \<le> a" using cs(9) cs(21) by auto
    from contents_frame [OF al extends_update(2) [OF ex this]]
    show "contents (h'\<lparr>int_dict_objs := (int_dict_objs h')(a := d)\<rparr>) self = contents h self" .
  qed
  have n3: "next_addr h \<le> front_line_stances c" by (simp add: cs)
  have n15: "next_addr h \<le> enemy_battle_positions c" by (simp add: cs)
  have E: "\<forall>d. contents (h'\<lparr>stance_dict_objs := (stance_dict_objs h')(front_line_stances c := d)\<rparr>) self
          = contents h self"
    using contents_frame [OF al extends_update(3) [OF ex n3]] by blast
  have F: "\<forall>d. contents (h'\<lparr>bp_dict_objs := (bp_dict_objs h')(enemy_battle_positions c := d)\<rparr>) self
          = contents h self"
    using contents_frame [OF al extends_update(4) [OF ex n15]] by blast
  have G: "\<forall>a \<in> snd ` set (bp_dict_objs h' (enemy_battle_positions c)). \<forall>g.
      contents (h'\<lparr>bp_objs := (bp_objs h')(a := g)\<rparr>) self = contents h self"
  proof (intro ballI allI)
    fix a g assume "a \<in> snd ` set (bp_dict_objs h' (enemy_battle_positions c))"
    then have "next_addr h \<le> a" using cs by blast
    from contents_frame [OF al extends_update(5) [OF ex this]]
    show "contents (h'\<lparr>bp_objs := (bp_objs h')(a := g)\<rparr>) self = contents h self" .
  qed
  have S: "threatening_air_defenses c = threatening_air_defenses self"
   "detecting_air_defenses c = detecting_air_defenses self"
   "vulnerable_control_points c = vulnerable_control_points self"
   "control_point_priority_queue c = control_point_priority_queue self"
    by (simp_all add: cs)
  show ?thesis
    by (intro conjI A B C D E F G S)
qed

lemma example_allocated: "allocated example_heap example_state"
  by (simp add: allocated_def addresses_def list_fields_def example_heap_def example_state_def)

theorem clone_shallow_copy_witness:
  "allocated example_heap example_state \<and>
   contents (snd (clone example_state example_heap)) (fst (clone example_state example_heap))
     = contents example_heap example_state \<and>
   enemy_air_defenses (fst (clone example_state example_heap))
     \<in> set (copied_lists (fst (clone example_state example_heap))) \<and>
   contents ((snd (clone example_state example_heap))
       \<lparr>list_objs := (list_objs (snd (clone example_state example_heap)))
          (enemy_air_defenses (fst (clone example_state example_heap)) := [10, 12])\<rparr>)
     example_state = contents example_heap example_state"
proof -
  have a: "allocated example_heap example_state" by (rule example_allocated)
  have b: "enemy_air_defenses (fst (clone example_state example_heap))
     \<in> set (copied_lists (fst (clone example_state example_heap)))"
    by (simp add: copied_lists_def)
  note t = clone_shallow_copy [OF a]
  have c: "contents (snd (clone example_state example_heap)) (fst (clone example_state example_heap))
     = contents example_heap example_state" using t by (elim conjE)
  have d: "\<forall>a \<in> set (copied_lists (fst (clone example_state example_heap))). \<forall>xs.
      contents ((snd (clone example_state example_heap))
        \<lparr>list_objs := (list_objs (snd (clone example_state example_heap)))(a := xs)\<rparr>) example_state
      = contents example_heap example_state" using t by (elim conjE)
  have e: "contents ((snd (clone example_state example_heap))
       \<lparr>list_objs := (list_objs (snd (clone example_state example_heap)))
          (enemy_air_defenses (fst (clone example_state example_heap)) := [10, 12])\<rparr>)
     example_state = contents example_heap example_state"
    by (rule spec [OF bspec [OF d b]])
  show ?thesis by (intro conjI a b c e)
qed


section \<open>Properties of package planning\<close>

subsection \<open>The threat ranges\<close>

lemma target_ranges_loop_known:
  "target_ranges_loop M tgt (Some rt) all_iads acc =
     Inr (acc @ map (\<lambda>tgo. (tgo, distance_to_threat M tgt rt tgo))
                  (filter (in_range M tgt rt) all_iads))"
proof (induction all_iads arbitrary: acc)
  case Nil
  then show ?case by simp
next
  case (Cons tgo all_iads)
  show ?case using Cons.IH
    by (cases rt) (simp_all add: in_range_def distance_to_threat_def range_of_def Let_def
        not_less)
qed

lemma target_ranges_loop_empty:
  "target_ranges_loop M tgt range_type [] acc = Inr acc"
  by simp

lemma iter_iads_ranges_known:
  "iter_iads_ranges M self h state (Some rt) =
     Inr (map fst (sort_key snd
        (map (\<lambda>tgo. (tgo, distance_to_threat M (PackagePlanningTask.target self) rt tgo))
           (filter (in_range M (PackagePlanningTask.target self) rt)
              (list_objs h (enemy_air_defenses state) @ list_objs h (enemy_ships state))))))"
  by (simp add: iter_iads_ranges_def target_ranges_loop_known)

lemma sorted_by_key:
  assumes "\<forall>x \<in> set L. snd x = d (fst x)"
  shows "map d (map fst (sort_key snd L)) = map snd (sort_key snd L)"
  using assms by (auto simp: comp_def)

lemma example_detection:
  "iter_iads_ranges example_methods example_task example_heap example_state (Some Detection)
     = Inr [11, 10, 20]"
  by (simp add: iter_iads_ranges_known example_methods_def example_task_def example_heap_def
      example_state_def in_range_def distance_to_threat_def range_of_def)

lemma example_threat:
  "iter_iads_ranges example_methods example_task example_heap example_state (Some Threat)
     = Inr [10, 20]"
  by (simp add: iter_iads_ranges_known example_methods_def example_task_def example_heap_def
      example_state_def in_range_def distance_to_threat_def range_of_def)

text \<open>
  C1. For a range type of the enumeration, \<open>iter_iads_ranges\<close> over the state's
  enemy_air_defenses and enemy_ships returns: every object it yields has a distance to the
  target minus its range that is not positive; the objects come in ascending order of that
  distance to the threat, the most negative first; they are exactly the objects of the two
  lists, as often as they occur there, whose range is true and whose distance to the threat
  is not positive; and objects with the same distance to the threat keep the order of the
  lists.
\<close>

theorem iter_iads_ranges_pruned_sorted:
  fixes M self h state rt
  defines "tgt \<equiv> PackagePlanningTask.target self"
  defines "all_iads \<equiv> list_objs h (enemy_air_defenses state) @ list_objs h (enemy_ships state)"
  shows "\<exists>ys. iter_iads_ranges M self h state (Some rt) = Inr ys \<and>
     (\<forall>y \<in> set ys. distance_to M y tgt - range_of M rt y \<le> 0) \<and>
     sorted (map (\<lambda>y. distance_to M y tgt - range_of M rt y) ys) \<and>
     mset ys = mset (filter (\<lambda>y. distance_bool M (range_of M rt y) \<and>
                                 distance_to M y tgt - range_of M rt y \<le> 0) all_iads) \<and>
     (\<forall>k. filter (\<lambda>y. distance_to M y tgt - range_of M rt y = k) ys =
          filter (\<lambda>y. distance_to M y tgt - range_of M rt y = k)
            (filter (\<lambda>y. distance_bool M (range_of M rt y) \<and>
                         distance_to M y tgt - range_of M rt y \<le> 0) all_iads))"
proof -
  let ?d = "distance_to_threat M tgt rt"
  let ?F = "filter (in_range M tgt rt) all_iads"
  let ?L = "map (\<lambda>tgo. (tgo, ?d tgo)) ?F"
  let ?ys = "map fst (sort_key snd ?L)"
  have r: "iter_iads_ranges M self h state (Some rt) = Inr ?ys"
    by (simp add: iter_iads_ranges_known tgt_def all_iads_def)
  have m: "mset ?ys = mset ?F"
  proof -
    have "map fst ?L = ?F" by (simp add: comp_def)
    moreover have "mset ?ys = mset (map fst ?L)" by (simp only: mset_map mset_sort)
    ultimately show ?thesis by simp
  qed
  have "\<forall>x \<in> set ?L. snd x = ?d (fst x)" by auto
  then have e: "map ?d ?ys = map snd (sort_key snd ?L)" by (rule sorted_by_key)
  have s: "sorted (map ?d ?ys)" unfolding e by (rule sorted_sort_key)
  have "set ?ys = set ?F" using m by (rule mset_eq_setD)
  then have p: "\<forall>y \<in> set ?ys. ?d y \<le> 0" by (simp add: in_range_def)
  have d: "?d = (\<lambda>y. distance_to M y tgt - range_of M rt y)"
    by (simp add: distance_to_threat_def fun_eq_iff)
  have i: "in_range M tgt rt = (\<lambda>y. distance_bool M (range_of M rt y) \<and>
                                 distance_to M y tgt - range_of M rt y \<le> 0)"
    by (simp add: in_range_def distance_to_threat_def fun_eq_iff)
  have st: "filter (\<lambda>y. ?d y = k) ?ys = filter (\<lambda>y. ?d y = k) ?F" for k
  proof -
    have "filter (\<lambda>y. ?d y = k) ?ys
        = map fst (filter (\<lambda>x. ?d (fst x) = k) (sort_key snd ?L))"
      by (simp add: filter_map comp_def)
    also have "filter (\<lambda>x. ?d (fst x) = k) (sort_key snd ?L)
        = filter (\<lambda>x. snd x = k) (sort_key snd ?L)"
      by (rule filter_cong [OF refl]) auto
    also have "\<dots> = filter (\<lambda>x. snd x = k) ?L" by (rule sort_key_stable)
    also have "map fst (filter (\<lambda>x. snd x = k) ?L) = filter (\<lambda>y. ?d y = k) ?F"
      by (simp add: filter_map comp_def)
    finally show ?thesis .
  qed
  from r p s m st show ?thesis unfolding d i by blast
qed

theorem iter_iads_ranges_pruned_sorted_witness:
  "iter_iads_ranges example_methods example_task example_heap example_state (Some Detection)
     = Inr [11, 10, 20] \<and>
   sorted (map (\<lambda>y. distance_to example_methods y (PackagePlanningTask.target example_task)
                     - range_of example_methods Detection y) [11, 10, 20])"
proof -
  from iter_iads_ranges_pruned_sorted
    [of example_methods example_task example_heap example_state Detection]
  obtain ys where
    "iter_iads_ranges example_methods example_task example_heap example_state (Some Detection)
       = Inr ys"
    and s: "sorted (map (\<lambda>y. distance_to example_methods y (PackagePlanningTask.target example_task)
                     - range_of example_methods Detection y) ys)"
    by blast
  then have "ys = [11, 10, 20]" by (simp add: example_detection)
  with s show ?thesis by (simp add: example_detection)
qed

text \<open>
  C7. For a state whose enemy_air_defenses and enemy_ships are both empty,
  \<open>iter_iads_ranges\<close> yields the empty sequence and raises nothing, whatever the range
  type. For \<open>Detection\<close> and for \<open>Threat\<close> it returns a sequence for every state. Only an
  argument that is no member of \<open>RangeType\<close> raises, \<open>ValueError\<close>, and only when there is a
  ground object to look at.
\<close>

theorem iter_iads_ranges_no_failure:
  "(list_objs h (enemy_air_defenses state) = [] \<and> list_objs h (enemy_ships state) = [] \<longrightarrow>
      iter_iads_ranges M self h state range_type = Inr []) \<and>
   (\<exists>ys. iter_iads_ranges M self h state (Some Detection) = Inr ys) \<and>
   (\<exists>ys. iter_iads_ranges M self h state (Some Threat) = Inr ys) \<and>
   (range_type = None \<and>
    list_objs h (enemy_air_defenses state) @ list_objs h (enemy_ships state) \<noteq> [] \<longrightarrow>
      iter_iads_ranges M self h state range_type = Inl (ValueError ''Unknown RangeType''))"
proof (intro conjI impI)
  assume "list_objs h (enemy_air_defenses state) = [] \<and> list_objs h (enemy_ships state) = []"
  then show "iter_iads_ranges M self h state range_type = Inr []"
    by (simp add: iter_iads_ranges_def)
next
  show "\<exists>ys. iter_iads_ranges M self h state (Some Detection) = Inr ys"
    by (simp add: iter_iads_ranges_known)
  show "\<exists>ys. iter_iads_ranges M self h state (Some Threat) = Inr ys"
    by (simp add: iter_iads_ranges_known)
next
  assume a: "range_type = None \<and>
    list_objs h (enemy_air_defenses state) @ list_objs h (enemy_ships state) \<noteq> []"
  then obtain x xs where
    "list_objs h (enemy_air_defenses state) @ list_objs h (enemy_ships state) = x # xs"
    by (cases "list_objs h (enemy_air_defenses state) @ list_objs h (enemy_ships state)") auto
  with a show "iter_iads_ranges M self h state range_type = Inl (ValueError ''Unknown RangeType'')"
    by (simp add: iter_iads_ranges_def del: append_is_Nil_conv)
qed

theorem iter_iads_ranges_no_failure_witness:
  "list_objs example_heap (enemy_air_defenses (example_state\<lparr>enemy_air_defenses := 0, enemy_ships := 1\<rparr>)) = [] \<and>
   list_objs example_heap (enemy_ships (example_state\<lparr>enemy_air_defenses := 0, enemy_ships := 1\<rparr>)) = [] \<and>
   iter_iads_ranges example_methods example_task example_heap
     (example_state\<lparr>enemy_air_defenses := 0, enemy_ships := 1\<rparr>) (Some Threat) = Inr [] \<and>
   iter_iads_ranges example_methods example_task example_heap example_state None
     = Inl (ValueError ''Unknown RangeType'')"
proof -
  have a: "list_objs example_heap (enemy_air_defenses (example_state\<lparr>enemy_air_defenses := 0, enemy_ships := 1\<rparr>)) = []"
    "list_objs example_heap (enemy_ships (example_state\<lparr>enemy_air_defenses := 0, enemy_ships := 1\<rparr>)) = []"
    by (simp_all add: example_heap_def)
  have b: "list_objs example_heap (enemy_air_defenses example_state) @
           list_objs example_heap (enemy_ships example_state) \<noteq> []"
    by (simp add: example_heap_def example_state_def)
  from iter_iads_ranges_no_failure [of example_heap
      "example_state\<lparr>enemy_air_defenses := 0, enemy_ships := 1\<rparr>" example_methods example_task
      "Some Threat"] a
  have c: "iter_iads_ranges example_methods example_task example_heap
     (example_state\<lparr>enemy_air_defenses := 0, enemy_ships := 1\<rparr>) (Some Threat) = Inr []"
    by blast
  from iter_iads_ranges_no_failure [of example_heap example_state example_methods example_task
      None] b
  have d: "iter_iads_ranges example_methods example_task example_heap example_state None
     = Inl (ValueError ''Unknown RangeType'')"
    by blast
  show ?thesis by (intro conjI a c d)
qed

subsection \<open>The lists of threats and detectors\<close>

lemma append_unseen_distinct:
  "distinct (list_objs h b) \<Longrightarrow> distinct (list_objs (append_unseen a x h) b)"
  by (auto simp: append_unseen_def)

lemma append_unseen_other:
  "b \<noteq> a \<Longrightarrow> list_objs (append_unseen a x h) b = list_objs h b"
  by (simp add: append_unseen_def)

lemma append_unseen_set:
  "set (list_objs (append_unseen a x h) a) = insert x (set (list_objs h a))"
  by (auto simp: append_unseen_def)

lemma fold_append_unseen_distinct:
  "distinct (list_objs h b) \<Longrightarrow> distinct (list_objs (fold (append_unseen a) xs h) b)"
  by (induction xs arbitrary: h) (simp_all add: append_unseen_distinct)

lemma fold_append_unseen_other:
  "b \<noteq> a \<Longrightarrow> list_objs (fold (append_unseen a) xs h) b = list_objs h b"
  by (induction xs arbitrary: h) (simp_all add: append_unseen_other)

lemma fold_append_unseen_set:
  "set (list_objs (fold (append_unseen a) xs h) a) = set (list_objs h a) \<union> set xs"
  by (induction xs arbitrary: h) (auto simp: append_unseen_set)

lemma fold_threats:
  "fold (\<lambda>x (t, h). (t \<or> P x, append_unseen a x h)) xs (t0, h0) =
     (t0 \<or> (\<exists>x \<in> set xs. P x), fold (append_unseen a) xs h0)"
  by (induction xs arbitrary: t0 h0) auto

lemma target_area_preconditions_met_eq:
  fixes M self state h
  defines "detectors \<equiv> projr (iter_iads_ranges M self h state (Some Detection))"
  defines "h1 \<equiv> fold (append_unseen (detecting_air_defenses state)) detectors h"
  defines "threats \<equiv> projr (iter_iads_ranges M self h1 state (Some Threat))"
  shows "target_area_preconditions_met M self state ignore_iads h =
     (if ignore_iads then (Inr True, h1)
      else (Inr (\<not> (\<exists>x \<in> set threats. get_weighted_threat_range M self x state < 0)),
            fold (append_unseen (threatening_air_defenses state)) threats h1))"
  unfolding target_area_preconditions_met_def iter_detecting_iads_def iter_iads_threats_def
    detectors_def h1_def threats_def
  by (simp add: iter_iads_ranges_known fold_threats Let_def)

lemma target_area_preconditions_met_distinct:
  assumes "distinct (list_objs h (threatening_air_defenses state))"
    and "distinct (list_objs h (detecting_air_defenses state))"
  shows "\<exists>b h'. target_area_preconditions_met M self state ignore_iads h = (Inr b, h') \<and>
     distinct (list_objs h' (threatening_air_defenses state)) \<and>
     distinct (list_objs h' (detecting_air_defenses state)) \<and>
     set (list_objs h (threatening_air_defenses state)) \<subseteq> set (list_objs h' (threatening_air_defenses state)) \<and>
     set (list_objs h (detecting_air_defenses state)) \<subseteq> set (list_objs h' (detecting_air_defenses state)) \<and>
     (\<forall>a. a \<noteq> threatening_air_defenses state \<and> a \<noteq> detecting_air_defenses state \<longrightarrow>
          list_objs h' a = list_objs h a)"
proof -
  let ?d = "detecting_air_defenses state" and ?t = "threatening_air_defenses state"
  define detectors where "detectors = projr (iter_iads_ranges M self h state (Some Detection))"
  define h1 where "h1 = fold (append_unseen ?d) detectors h"
  define threats where "threats = projr (iter_iads_ranges M self h1 state (Some Threat))"
  define h2 where "h2 = fold (append_unseen ?t) threats h1"
  note eq = target_area_preconditions_met_eq [where M = M and self = self and state = state
      and h = h]
  have d1: "distinct (list_objs h1 ?t)" "distinct (list_objs h1 ?d)"
    unfolding h1_def using assms by (simp_all add: fold_append_unseen_distinct)
  have d2: "distinct (list_objs h2 ?t)" "distinct (list_objs h2 ?d)"
    unfolding h2_def using d1 by (simp_all add: fold_append_unseen_distinct)
  have s1: "set (list_objs h b) \<subseteq> set (list_objs h1 b)" for b
    unfolding h1_def
    by (cases "b = ?d") (simp_all add: fold_append_unseen_set fold_append_unseen_other)
  have s2: "set (list_objs h1 b) \<subseteq> set (list_objs h2 b)" for b
    unfolding h2_def
    by (cases "b = ?t") (simp_all add: fold_append_unseen_set fold_append_unseen_other)
  have o1: "list_objs h1 a = list_objs h a" if "a \<noteq> ?d" for a
    unfolding h1_def using that by (simp add: fold_append_unseen_other)
  have o2: "list_objs h2 a = list_objs h1 a" if "a \<noteq> ?t" for a
    unfolding h2_def using that by (simp add: fold_append_unseen_other)
  show ?thesis
  proof (cases ignore_iads)
    case True
    then have "target_area_preconditions_met M self state ignore_iads h = (Inr True, h1)"
      by (simp add: eq h1_def detectors_def)
    then show ?thesis using d1 s1 o1 by auto
  next
    case False
    then have "target_area_preconditions_met M self state ignore_iads h =
       (Inr (\<not> (\<exists>x \<in> set threats. get_weighted_threat_range M self x state < 0)), h2)"
      by (simp add: eq h2_def threats_def h1_def detectors_def)
    moreover have "set (list_objs h b) \<subseteq> set (list_objs h2 b)" for b
      using s1 [of b] s2 [of b] by blast
    moreover have "list_objs h2 a = list_objs h a" if "a \<noteq> ?t \<and> a \<noteq> ?d" for a
      using that o1 o2 by simp
    ultimately show ?thesis using d2 by blast
  qed
qed

lemma remove_if_present_distinct:
  "distinct (list_objs h b) \<Longrightarrow> distinct (list_objs (remove_if_present a x h) b)"
  by (auto simp: remove_if_present_def)

lemma eliminate_air_defense_distinct:
  assumes "distinct (list_objs h b)"
  shows "distinct (list_objs (snd (snd (eliminate_air_defense for_threats tgo self h))) b)"
proof -
  let ?h2 = "remove_if_present (detecting_air_defenses self) tgo
               (remove_if_present (threatening_air_defenses self) tgo h)"
  have "distinct (list_objs ?h2 b)"
    using assms by (intro remove_if_present_distinct)
  then show ?thesis
    by (auto simp: eliminate_air_defense_def Let_def)
qed

lemma eliminate_ship_distinct:
  assumes "distinct (list_objs h b)"
  shows "distinct (list_objs (snd (snd (eliminate_ship for_threats tgo self h))) b)"
proof -
  let ?h2 = "remove_if_present (detecting_air_defenses self) tgo
               (remove_if_present (threatening_air_defenses self) tgo h)"
  have "distinct (list_objs ?h2 b)"
    using assms by (intro remove_if_present_distinct)
  then show ?thesis
    by (auto simp: eliminate_ship_def Let_def)
qed

lemma target_area_preconditions_met_detectors:
  "set (projr (iter_detecting_iads M self h state))
     \<subseteq> set (list_objs (snd (target_area_preconditions_met M self state ignore_iads h))
              (detecting_air_defenses state))"
proof -
  let ?d = "detecting_air_defenses state" and ?t = "threatening_air_defenses state"
  let ?ds = "projr (iter_iads_ranges M self h state (Some Detection))"
  let ?h1 = "fold (append_unseen ?d) ?ds h"
  let ?ts = "projr (iter_iads_ranges M self ?h1 state (Some Threat))"
  have a: "set ?ds \<subseteq> set (list_objs ?h1 ?d)"
    by (simp add: fold_append_unseen_set)
  have b: "set (list_objs ?h1 ?d) \<subseteq> set (list_objs (fold (append_unseen ?t) ?ts ?h1) ?d)"
    by (cases "?d = ?t") (simp_all add: fold_append_unseen_set fold_append_unseen_other)
  show ?thesis
    using a b
    by (cases ignore_iads)
       (auto simp: target_area_preconditions_met_eq iter_detecting_iads_def)
qed

lemma example_lists:
  "list_objs example_heap (threatening_air_defenses example_state) = []"
  "list_objs example_heap (detecting_air_defenses example_state) = [11]"
  by (simp_all add: example_heap_def example_state_def)

text \<open>
  C4. When the lists threatening_air_defenses and detecting_air_defenses of a state hold
  no object twice, \<open>target_area_preconditions_met\<close> returns normally and the two lists
  still hold no object twice; they keep the objects they had, the detecting list holds
  every detector afterwards, and no other list changes. \<open>eliminate_air_defense\<close> and
  \<open>eliminate_ship\<close> leave the two lists without duplicates too, also when they raise.
\<close>

theorem threat_lists_stay_distinct:
  assumes "distinct (list_objs h (threatening_air_defenses state))"
    and "distinct (list_objs h (detecting_air_defenses state))"
  shows
  "(\<exists>b h'. target_area_preconditions_met M self state ignore_iads h = (Inr b, h') \<and>
      distinct (list_objs h' (threatening_air_defenses state)) \<and>
      distinct (list_objs h' (detecting_air_defenses state)) \<and>
      set (list_objs h (threatening_air_defenses state))
        \<subseteq> set (list_objs h' (threatening_air_defenses state)) \<and>
      set (list_objs h (detecting_air_defenses state))
        \<subseteq> set (list_objs h' (detecting_air_defenses state)) \<and>
      set (projr (iter_detecting_iads M self h state))
        \<subseteq> set (list_objs h' (detecting_air_defenses state)) \<and>
      (\<forall>a. a \<noteq> threatening_air_defenses state \<and> a \<noteq> detecting_air_defenses state \<longrightarrow>
           list_objs h' a = list_objs h a)) \<and>
   distinct (list_objs (snd (snd (eliminate_air_defense for_threats tgo state h)))
               (threatening_air_defenses state)) \<and>
   distinct (list_objs (snd (snd (eliminate_air_defense for_threats tgo state h)))
               (detecting_air_defenses state)) \<and>
   distinct (list_objs (snd (snd (eliminate_ship for_threats tgo state h)))
               (threatening_air_defenses state)) \<and>
   distinct (list_objs (snd (snd (eliminate_ship for_threats tgo state h)))
               (detecting_air_defenses state))"
proof -
  from target_area_preconditions_met_distinct [OF assms, of M self ignore_iads]
  obtain b h' where r: "target_area_preconditions_met M self state ignore_iads h = (Inr b, h')"
    and p: "distinct (list_objs h' (threatening_air_defenses state))"
      "distinct (list_objs h' (detecting_air_defenses state))"
      "set (list_objs h (threatening_air_defenses state))
        \<subseteq> set (list_objs h' (threatening_air_defenses state))"
      "set (list_objs h (detecting_air_defenses state))
        \<subseteq> set (list_objs h' (detecting_air_defenses state))"
      "\<forall>a. a \<noteq> threatening_air_defenses state \<and> a \<noteq> detecting_air_defenses state \<longrightarrow>
           list_objs h' a = list_objs h a"
    by blast
  have q: "set (projr (iter_detecting_iads M self h state))
        \<subseteq> set (list_objs h' (detecting_air_defenses state))"
    using target_area_preconditions_met_detectors [of M self h state ignore_iads]
    by (simp add: r)
  show ?thesis
    using r p q assms
    by (intro conjI exI [of _ b] exI [of _ h'] eliminate_air_defense_distinct
        eliminate_ship_distinct)
qed

lemma example_addresses:
  "detecting_air_defenses example_state = 6" "threatening_air_defenses example_state = 5"
  "enemy_air_defenses example_state = 4" "enemy_ships example_state = 9"
  by (simp_all add: example_state_def)

lemma example_h1:
  "list_objs (fold (append_unseen 6) [11, 10, 20] example_heap) 6 = [11, 10, 20]"
  "list_objs (fold (append_unseen 6) [11, 10, 20] example_heap) 5 = []"
  "list_objs (fold (append_unseen 6) [11, 10, 20] example_heap) 4 = [10, 11, 12]"
  "list_objs (fold (append_unseen 6) [11, 10, 20] example_heap) 9 = [20]"
  by (simp_all add: append_unseen_def example_heap_def)

lemma example_threat_h1:
  "iter_iads_ranges example_methods example_task
     (fold (append_unseen 6) [11, 10, 20] example_heap)
     example_state (Some Threat) = Inr [10, 20]"
  unfolding iter_iads_ranges_known example_addresses example_h1
  by (simp add: example_methods_def example_task_def in_range_def distance_to_threat_def
      range_of_def)

lemma example_h2:
  "list_objs (fold (append_unseen 5) [10, 20] (fold (append_unseen 6) [11, 10, 20] example_heap)) 6
     = [11, 10, 20]"
  "list_objs (fold (append_unseen 5) [10, 20] (fold (append_unseen 6) [11, 10, 20] example_heap)) 5
     = [10, 20]"
  by (simp_all add: append_unseen_def example_heap_def)

lemma example_run:
  "target_area_preconditions_met example_methods example_task example_state False example_heap
     = (Inr False,
        fold (append_unseen 5) [10, 20] (fold (append_unseen 6) [11, 10, 20] example_heap))"
  unfolding target_area_preconditions_met_eq example_addresses example_detection
    sum.sel example_threat_h1
  by (simp add: get_weighted_threat_range_def corrective_factor_for_type_def
      example_methods_def example_state_def example_settings_def example_task_def Let_def)


theorem threat_lists_stay_distinct_witness:
  "distinct (list_objs example_heap (threatening_air_defenses example_state)) \<and>
   distinct (list_objs example_heap (detecting_air_defenses example_state)) \<and>
   list_objs example_heap (detecting_air_defenses example_state) = [11] \<and>
   (\<exists>b h'. target_area_preconditions_met example_methods example_task example_state False
              example_heap = (Inr b, h') \<and>
      distinct (list_objs h' (threatening_air_defenses example_state)) \<and>
      distinct (list_objs h' (detecting_air_defenses example_state))) \<and>
   fst (target_area_preconditions_met example_methods example_task example_state False
          example_heap) = Inr False \<and>
   list_objs (snd (target_area_preconditions_met example_methods example_task example_state
                     False example_heap)) (detecting_air_defenses example_state)
     = [11, 10, 20] \<and>
   list_objs (snd (target_area_preconditions_met example_methods example_task example_state
                     False example_heap)) (threatening_air_defenses example_state)
     = [10, 20] \<and>
   distinct (list_objs (snd (snd (eliminate_air_defense (\<lambda>ctx barcaps ads. length ads) 11
                                    example_state example_heap)))
               (detecting_air_defenses example_state))"
proof -
  have a: "distinct (list_objs example_heap (threatening_air_defenses example_state))"
    by (simp add: example_lists)
  have b: "distinct (list_objs example_heap (detecting_air_defenses example_state))"
    by (simp add: example_lists)
  note t = threat_lists_stay_distinct [OF a b, of example_methods example_task False
      "\<lambda>ctx barcaps ads. length ads" 11]
  from t have c: "\<exists>b h'. target_area_preconditions_met example_methods example_task
              example_state False example_heap = (Inr b, h') \<and>
      distinct (list_objs h' (threatening_air_defenses example_state)) \<and>
      distinct (list_objs h' (detecting_air_defenses example_state))"
    by blast
  from t have d: "distinct (list_objs (snd (snd (eliminate_air_defense
      (\<lambda>ctx barcaps ads. length ads) 11 example_state example_heap)))
               (detecting_air_defenses example_state))"
    by blast
  have e: "fst (target_area_preconditions_met example_methods example_task example_state False
          example_heap) = Inr False"
    by (simp add: example_run)
  have f: "list_objs (snd (target_area_preconditions_met example_methods example_task
                     example_state False example_heap)) (detecting_air_defenses example_state)
     = [11, 10, 20]"
    unfolding example_run example_addresses snd_conv by (rule example_h2(1))
  have g: "list_objs (snd (target_area_preconditions_met example_methods example_task
                     example_state False example_heap)) (threatening_air_defenses example_state)
     = [10, 20]"
    unfolding example_run example_addresses snd_conv by (rule example_h2(2))
  show ?thesis
    by (intro conjI a b c d e f g example_lists)
qed

subsection \<open>Planning and executing\<close>

lemma example_not_disabled:
  "\<not> (player (coalition (persistent example_state)) \<and>
      auto_ato_behavior (settings (persistent example_state)) = Disabled)"
  by (simp add: example_state_def example_settings_def)

lemma example_proposed:
  "PackagePlanningTask.flights (example_propose_flights example_task) =
     [\<lparr>task = STRIKE, num_aircraft = 2, escort_type = None\<rparr>,
      \<lparr>task = SEAD_ESCORT, num_aircraft = 2, escort_type = Some Sead\<rparr>,
      \<lparr>task = ESCORT, num_aircraft = 2, escort_type = Some AirToAir\<rparr>,
      \<lparr>task = SEAD_SWEEP, num_aircraft = 2, escort_type = Some Sead\<rparr>]"
  by (simp add: example_propose_flights_def propose_common_escorts_def propose_flight_def
      example_task_def)

text \<open>
  C2. \<open>preconditions_met\<close> returns \<open>False\<close> and changes nothing for the player's coalition
  with automatic planning disabled. Otherwise, for a task that proposes at least one
  flight, it returns a truth value, which is \<open>True\<close> exactly when the task's package is not
  \<open>None\<close> afterwards, and the package is what the planner returned: it returns \<open>True\<close>
  exactly when the planner returned a package, and a failed plan returns \<open>False\<close> with the
  package \<open>None\<close> and raises nothing. The only exception is the \<open>IndexError\<close> of a task that
  proposes no flight. \<open>execute\<close> on a task whose package is \<open>None\<close> raises \<open>RuntimeError\<close> and
  leaves the ATO as it was.
\<close>

theorem preconditions_met_package:
  fixes propose_flights :: "PackagePlanningTask \<Rightarrow> PackagePlanningTask"
    and plan_mission :: "PersistentContext \<Rightarrow> ProposedMission \<Rightarrow> int \<Rightarrow> 'g \<Rightarrow> package_ref option \<times> 'g"
    and self :: PackagePlanningTask and state :: TheaterState and g :: 'g
    and add_package :: "package_ref \<Rightarrow> 'ato \<Rightarrow> 'ato" and ato :: 'ato
    and failed :: PackagePlanningTask
  defines "disabled \<equiv> player (coalition (persistent state)) \<and>
                       auto_ato_behavior (settings (persistent state)) = Disabled"
  defines "r \<equiv> preconditions_met propose_flights plan_mission self state g"
  defines "mission \<equiv>
     \<lparr>location = PackagePlanningTask.target (propose_flights self),
      proposed = PackagePlanningTask.flights (propose_flights self),
      asap = (\<not> has_awacs_package (coalition (persistent state)) \<and>
              AEWC \<in> set (map task (PackagePlanningTask.flights (propose_flights self))))\<rparr>"
  shows
  "(disabled \<longrightarrow> r = (Inr False, self, g)) \<and>
   (\<not> disabled \<and> PackagePlanningTask.flights (propose_flights self) \<noteq> [] \<longrightarrow>
      (\<exists>b. fst r = Inr b \<and>
           (b \<longleftrightarrow> PackagePlanningTask.package (fst (snd r)) \<noteq> None) \<and>
           PackagePlanningTask.package (fst (snd r)) =
             fst (plan_mission (persistent state) mission purchase_multiplier g) \<and>
           snd (snd r) = snd (plan_mission (persistent state) mission purchase_multiplier g))) \<and>
   (fst r = Inr True \<longleftrightarrow>
      \<not> disabled \<and> PackagePlanningTask.flights (propose_flights self) \<noteq> [] \<and>
      fst (plan_mission (persistent state) mission purchase_multiplier g) \<noteq> None) \<and>
   (fst r = Inr True \<longrightarrow> PackagePlanningTask.package (fst (snd r)) \<noteq> None) \<and>
   (\<not> disabled \<and> PackagePlanningTask.flights (propose_flights self) \<noteq> [] \<and>
    fst (plan_mission (persistent state) mission purchase_multiplier g) = None \<longrightarrow>
      r = (Inr False, (propose_flights self)\<lparr>PackagePlanningTask.package := None\<rparr>,
           snd (plan_mission (persistent state) mission purchase_multiplier g))) \<and>
   (\<forall>e. fst r = Inl e \<longrightarrow>
      \<not> disabled \<and> PackagePlanningTask.flights (propose_flights self) = [] \<and>
      e = IndexError ''list index out of range'') \<and>
   (PackagePlanningTask.package failed = None \<longrightarrow>
      execute add_package failed ato =
        (Some (RuntimeError ''Attempted to execute failed package planning task''), ato))"
proof -
  have dis: "r = (Inr False, self, g)" if disabled
    using that by (simp add: r_def preconditions_met_def disabled_def)
  have ff: "r = fulfill_mission propose_flights plan_mission self state g" if "\<not> disabled"
  proof -
    from that have "\<not> (player (coalition (persistent state)) \<and>
                       auto_ato_behavior (settings (persistent state)) = Disabled)"
      unfolding disabled_def .
    then show ?thesis unfolding r_def preconditions_met_def by (simp only: if_False)
  qed
  have en: "r = (Inr (fst (plan_mission (persistent state) mission purchase_multiplier g) \<noteq> None),
                 (propose_flights self)\<lparr>PackagePlanningTask.package :=
                    fst (plan_mission (persistent state) mission purchase_multiplier g)\<rparr>,
                 snd (plan_mission (persistent state) mission purchase_multiplier g))"
    if "\<not> disabled" "PackagePlanningTask.flights (propose_flights self) \<noteq> []"
    unfolding ff [OF that(1)] using that(2)
    by (cases "PackagePlanningTask.flights (propose_flights self)")
       (simp_all add: fulfill_mission_def Let_def mission_def split_def)
  have em: "r = (Inl (IndexError ''list index out of range''), propose_flights self, g)"
    if "\<not> disabled" "PackagePlanningTask.flights (propose_flights self) = []"
    unfolding ff [OF that(1)] using that(2)
    by (simp add: fulfill_mission_def Let_def)
  have A: "\<exists>b. fst r = Inr b \<and>
           (b \<longleftrightarrow> PackagePlanningTask.package (fst (snd r)) \<noteq> None) \<and>
           PackagePlanningTask.package (fst (snd r)) =
             fst (plan_mission (persistent state) mission purchase_multiplier g) \<and>
           snd (snd r) = snd (plan_mission (persistent state) mission purchase_multiplier g)"
    if "\<not> disabled \<and> PackagePlanningTask.flights (propose_flights self) \<noteq> []"
    using en that by simp
  have B: "PackagePlanningTask.package (fst (snd r)) \<noteq> None" if t: "fst r = Inr True"
  proof (cases disabled)
    case True
    with dis t show ?thesis by simp
  next
    case False
    show ?thesis
    proof (cases "PackagePlanningTask.flights (propose_flights self) = []")
      case True
      with em False t show ?thesis by simp
    next
      case False
      with en \<open>\<not> disabled\<close> t show ?thesis by simp
    qed
  qed
  have C: "\<not> disabled \<and> PackagePlanningTask.flights (propose_flights self) = [] \<and>
      e = IndexError ''list index out of range''" if e: "fst r = Inl e" for e
  proof (cases disabled)
    case True
    with dis e show ?thesis by simp
  next
    case False
    show ?thesis
    proof (cases "PackagePlanningTask.flights (propose_flights self) = []")
      case True
      with em \<open>\<not> disabled\<close> e show ?thesis by simp
    next
      case False
      with en \<open>\<not> disabled\<close> e show ?thesis by simp
    qed
  qed
  have D: "execute add_package failed ato =
        (Some (RuntimeError ''Attempted to execute failed package planning task''), ato)"
    if "PackagePlanningTask.package failed = None"
    using that by (simp add: execute_def)
  have E: "fst r = Inr True \<longleftrightarrow>
      \<not> disabled \<and> PackagePlanningTask.flights (propose_flights self) \<noteq> [] \<and>
      fst (plan_mission (persistent state) mission purchase_multiplier g) \<noteq> None"
  proof (cases disabled)
    case True
    with dis show ?thesis by simp
  next
    case False
    show ?thesis
    proof (cases "PackagePlanningTask.flights (propose_flights self) = []")
      case True
      with em \<open>\<not> disabled\<close> show ?thesis by simp
    next
      case False
      with en \<open>\<not> disabled\<close> show ?thesis by simp
    qed
  qed
  have F: "r = (Inr False, (propose_flights self)\<lparr>PackagePlanningTask.package := None\<rparr>,
           snd (plan_mission (persistent state) mission purchase_multiplier g))"
    if "\<not> disabled \<and> PackagePlanningTask.flights (propose_flights self) \<noteq> [] \<and>
        fst (plan_mission (persistent state) mission purchase_multiplier g) = None"
    using en that by simp
  show ?thesis
    by (intro conjI impI allI) (use dis A B C D E F in blast)+
qed

theorem preconditions_met_package_witness:
  "\<not> (player (coalition (persistent example_state)) \<and>
      auto_ato_behavior (settings (persistent example_state)) = Disabled) \<and>
   PackagePlanningTask.flights (example_propose_flights example_task) \<noteq> [] \<and>
   fst (preconditions_met example_propose_flights example_plan_mission example_task
          example_state 0) = Inr True \<and>
   PackagePlanningTask.package
     (fst (snd (preconditions_met example_propose_flights example_plan_mission example_task
                  example_state 0))) = Some 3 \<and>
   PackagePlanningTask.flights (example_propose_five example_task) \<noteq> [] \<and>
   preconditions_met example_propose_five example_plan_mission example_task example_state 0 =
     (Inr False,
      (example_propose_five example_task)\<lparr>PackagePlanningTask.package := None\<rparr>, 0) \<and>
   PackagePlanningTask.package example_task = None \<and>
   execute (#) example_task [] =
     (Some (RuntimeError ''Attempted to execute failed package planning task''), [])"
proof -
  have b5: "PackagePlanningTask.flights (example_propose_five example_task) \<noteq> []"
    by (simp add: example_propose_five_def propose_flight_def)
  have l5: "length (PackagePlanningTask.flights (example_propose_five example_task)) = 5"
    by (simp add: example_propose_five_def propose_flight_def example_proposed)
  note t5 = preconditions_met_package [where propose_flights = example_propose_five
      and plan_mission = example_plan_mission and self = example_task
      and state = example_state and g = 0 and failed = example_task
      and add_package = "(#)" and ato = "[]"]
  have p5: "example_plan_mission (persistent example_state)
       \<lparr>location = PackagePlanningTask.target (example_propose_five example_task),
        proposed = PackagePlanningTask.flights (example_propose_five example_task),
        asap = (\<not> has_awacs_package (coalition (persistent example_state)) \<and>
                AEWC \<in> set (map task (PackagePlanningTask.flights
                                        (example_propose_five example_task))))\<rparr>
       purchase_multiplier 0 = (None, 0)"
    by (simp add: example_plan_mission_def l5)
  from t5 example_not_disabled b5 p5
  have f: "preconditions_met example_propose_five example_plan_mission example_task
      example_state 0 =
     (Inr False,
      (example_propose_five example_task)\<lparr>PackagePlanningTask.package := None\<rparr>, 0)"
    by simp
  note a = example_not_disabled
  have b: "PackagePlanningTask.flights (example_propose_flights example_task) \<noteq> []"
    by (simp add: example_proposed)
  have c: "PackagePlanningTask.package example_task = None"
    by (simp add: example_task_def)
  note t = preconditions_met_package [where propose_flights = example_propose_flights
      and plan_mission = example_plan_mission and self = example_task
      and state = example_state and g = 0 and failed = example_task
      and add_package = "(#)" and ato = "[]"]
  have p: "fst (example_plan_mission (persistent example_state)
       \<lparr>location = PackagePlanningTask.target (example_propose_flights example_task),
        proposed = PackagePlanningTask.flights (example_propose_flights example_task),
        asap = (\<not> has_awacs_package (coalition (persistent example_state)) \<and>
                AEWC \<in> set (map task (PackagePlanningTask.flights
                                        (example_propose_flights example_task))))\<rparr>
       purchase_multiplier 0) = Some 3"
    by (simp add: example_plan_mission_def example_proposed)
  from t a b p have d: "fst (preconditions_met example_propose_flights example_plan_mission
      example_task example_state 0) = Inr True \<and>
    PackagePlanningTask.package
     (fst (snd (preconditions_met example_propose_flights example_plan_mission example_task
                  example_state 0))) = Some 3"
    by auto
  from t c have e: "execute (#) example_task [] =
     (Some (RuntimeError ''Attempted to execute failed package planning task''), [])"
    by blast
  from a b c d e b5 f show ?thesis by blast
qed

end
